(* ===== verification/Prelude.thy ===== *)
theory Prelude
  imports Complex_Main "HOL-Library.Multiset"
begin

text \<open>
  Shared vocabulary of the SpaceX launch dashboard development
  (\<^verbatim>\<open>src/spacex_dash_app.py\<close>): the Python values the web host hands to the
  callbacks, the Python exceptions the code can raise, the result type of a step that
  may raise, and the generic list facts on de-duplication, counting and grouped sums
  that the component theories share.
\<close>

named_theorems eval_simps "definitions unfolded to evaluate the model on concrete tables"

section \<open>Python values and exceptions\<close>

text \<open>
  The host (Dash) decodes the browser's JSON into Python values before it calls a
  callback. JSON carries no NaN and no infinity, so a float from the browser is a finite
  real; a Python \<open>bool\<close> is a subclass of \<open>int\<close>, which \<open>py_number\<close> keeps.
\<close>

datatype pyval =
    PNone
  | PBool bool
  | PInt int
  | PFloat real
  | PStr string
  | PList "pyval list"

text \<open>The exceptions the modelled code can raise; \<open>ReadFailure\<close> is any
  \<^verbatim>\<open>pd.read_csv\<close> failure other than \<^verbatim>\<open>FileNotFoundError\<close>.\<close>

datatype error =
    KeyError string
  | ValueError string
  | TypeError string
  | ReadFailure string

type_synonym 'a result = "error + 'a"

text \<open>\<^verbatim>\<open>isinstance(v, (int, float))\<close> together with the number that a pandas
  comparison \<^verbatim>\<open>series >= v\<close> then uses.\<close>

fun py_number :: "pyval \<Rightarrow> real option" where
  "py_number (PInt i) = Some (of_int i)"
| "py_number (PFloat r) = Some r"
| "py_number (PBool b) = Some (if b then 1 else 0)"
| "py_number _ = None"

text \<open>The dropdown's value is a string, or \<open>None\<close> once the user clears it;
  an f-string prints \<open>None\<close> as \<^verbatim>\<open>None\<close>.\<close>

fun py_format :: "string option \<Rightarrow> string" where
  "py_format None = ''None''"
| "py_format (Some s) = s"

section \<open>First-seen de-duplication\<close>

text \<open>The reference order of distinct values: each value at its first occurrence,
  as pandas' \<^verbatim>\<open>unique\<close> and plotly's label grouping order them (HOL's
  \<open>remdups\<close> keeps the last occurrence instead).\<close>

fun dedup :: "'a list \<Rightarrow> 'a list" where
  "dedup [] = []"
| "dedup (x # xs) = x # dedup (filter (\<lambda>y. y \<noteq> x) xs)"

text \<open>A list of labelled amounts summed per label, labels in first-seen order.\<close>

definition group_sum :: "('a \<times> nat) list \<Rightarrow> ('a \<times> nat) list" where
  "group_sum xs =
     map (\<lambda>k. (k, sum_list (map snd (filter (\<lambda>p. fst p = k) xs)))) (dedup (map fst xs))"

section \<open>Lemmas on de-duplication\<close>

declare group_sum_def [eval_simps]

lemma set_dedup [simp]: "set (dedup xs) = set xs"
  by (induction xs rule: dedup.induct) auto

lemma distinct_dedup [simp]: "distinct (dedup xs)"
  by (induction xs rule: dedup.induct) auto

lemma dedup_distinct: "distinct xs \<Longrightarrow> dedup xs = xs"
proof (induction xs rule: dedup.induct)
  case 1
  then show ?case by simp
next
  case (2 x xs)
  then have "filter (\<lambda>y. y \<noteq> x) xs = xs"
    by (auto simp: filter_id_conv)
  with "2" show ?case by simp
qed

lemma length_dedup: "length (dedup xs) = card (set xs)"
  using distinct_card [OF distinct_dedup [of xs]] by simp

lemma count_list_map_filter:
  "count_list (map f (filter P xs)) y = length (filter (\<lambda>x. P x \<and> f x = y) xs)"
  by (induction xs) auto

section \<open>Stable sorting keeps amounts and distinctness\<close>

lemma sum_list_map_sort_key:
  "sum_list (map (g :: 'a \<Rightarrow> 'b::comm_monoid_add) (sort_key f xs)) = sum_list (map g xs)"
proof -
  have "sum_list (map g (sort_key f xs)) = sum_mset (mset (map g (sort_key f xs)))"
    by (simp only: sum_mset_sum_list)
  also have "\<dots> = sum_mset (mset (map g xs))"
    by simp
  also have "\<dots> = sum_list (map g xs)"
    by (simp only: sum_mset_sum_list)
  finally show ?thesis .
qed

lemma distinct_map_sort_key: "distinct (map g (sort_key f xs)) = distinct (map g xs)"
  by (rule mset_eq_imp_distinct_iff) simp

section \<open>Grouped sums\<close>

lemma sum_per_key:
  "finite K \<Longrightarrow> set (map fst xs) \<subseteq> K \<Longrightarrow>
   (\<Sum>k\<in>K. sum_list (map snd (filter (\<lambda>p. fst p = k) xs))) = sum_list (map snd xs)"
proof (induction xs)
  case Nil
  then show ?case by simp
next
  case (Cons x xs)
  have "(\<Sum>k\<in>K. sum_list (map snd (filter (\<lambda>p. fst p = k) (x # xs)))) =
        (\<Sum>k\<in>K. (if fst x = k then snd x else 0)) +
        (\<Sum>k\<in>K. sum_list (map snd (filter (\<lambda>p. fst p = k) xs)))"
  proof -
    have "\<And>k. sum_list (map snd (filter (\<lambda>p. fst p = k) (x # xs))) =
          (if fst x = k then snd x else 0) + sum_list (map snd (filter (\<lambda>p. fst p = k) xs))"
      by simp
    then show ?thesis by (simp only: sum.distrib)
  qed
  also have "\<dots> = snd x + sum_list (map snd xs)"
    using Cons by (simp add: sum.delta)
  finally show ?case by simp
qed

lemma group_sum_total: "sum_list (map snd (group_sum xs)) = sum_list (map snd xs)"
proof -
  have "sum_list (map snd (group_sum xs)) =
        (\<Sum>k\<in>set (map fst xs). sum_list (map snd (filter (\<lambda>p. fst p = k) xs)))"
    by (simp add: group_sum_def comp_def sum_list_distinct_conv_sum_set)
  also have "\<dots> = sum_list (map snd xs)"
    by (rule sum_per_key) auto
  finally show ?thesis .
qed

lemma filter_key_distinct:
  "distinct (map fst xs) \<Longrightarrow> p \<in> set xs \<Longrightarrow> filter (\<lambda>q. fst q = fst p) xs = [p]"
  by (induction xs) (auto simp: filter_empty_conv image_iff)

lemma group_sum_distinct: "distinct (map fst xs) \<Longrightarrow> group_sum xs = xs"
proof -
  assume d: "distinct (map fst xs)"
  then have "group_sum xs = map (\<lambda>p. (fst p, sum_list (map snd (filter (\<lambda>q. fst q = fst p) xs)))) xs"
    by (simp add: group_sum_def dedup_distinct comp_def)
  also have "\<dots> = xs"
    using d by (intro map_idI) (simp add: filter_key_distinct)
  finally show ?thesis .
qed

end
