(* ===== verification/Frame.thy ===== *)
theory Frame
  imports Prelude
begin

text \<open>
  The launch table (\<^verbatim>\<open>spacex_df\<close> in \<^verbatim>\<open>src/spacex_dash_app.py\<close>) as
  a pandas frame: the list of its column names and its rows in file order. A row carries
  the four fields the dashboard reads; a field whose column is absent from
  \<open>columns\<close> is never read, because every column access of the code is guarded
  here by the same \<^verbatim>\<open>KeyError\<close> pandas raises. The theory also holds the pandas
  operations the code applies: boolean-mask filtering, column access, the NaN-skipping
  \<^verbatim>\<open>max\<close>/\<^verbatim>\<open>min\<close> and the first-seen \<^verbatim>\<open>unique\<close>.
\<close>

section \<open>Rows and frames\<close>

text \<open>A payload read as NaN (an empty cell of the CSV) is \<open>None\<close>.\<close>

record launch =
  payload_mass :: "real option"
  launch_site :: string
  outcome_class :: int
  booster_category :: string

record frame =
  columns :: "string list"
  rows :: "launch list"

abbreviation col_payload :: string where "col_payload \<equiv> ''Payload Mass (kg)''"
abbreviation col_site :: string where "col_site \<equiv> ''Launch Site''"
abbreviation col_class :: string where "col_class \<equiv> ''class''"
abbreviation col_booster :: string where "col_booster \<equiv> ''Booster Version Category''"

text \<open>The four columns the dashboard reads, in the order the fallback table lists them.\<close>

definition dashboard_columns :: "string list" where
  "dashboard_columns = [col_payload, col_site, col_class, col_booster]"

text \<open>A frame the dashboard can work on: all four columns are present.\<close>

definition well_formed :: "frame \<Rightarrow> bool" where
  "well_formed df \<longleftrightarrow> set dashboard_columns \<subseteq> set (columns df)"

text \<open>The outcome column holds only 0 and 1, as the dataset's documentation says.\<close>

definition binary_classes :: "frame \<Rightarrow> bool" where
  "binary_classes df \<longleftrightarrow> (\<forall>r\<in>set (rows df). outcome_class r \<in> {0, 1})"

section \<open>pandas operations\<close>

text \<open>\<^verbatim>\<open>c in df.columns\<close>.\<close>

definition has_column :: "frame \<Rightarrow> string \<Rightarrow> bool" where
  "has_column df c \<longleftrightarrow> c \<in> set (columns df)"

text \<open>\<^verbatim>\<open>df[c]\<close>: the column's values in row order, or \<^verbatim>\<open>KeyError(c)\<close>.\<close>

definition column :: "frame \<Rightarrow> string \<Rightarrow> (launch \<Rightarrow> 'a) \<Rightarrow> 'a list result" where
  "column df c f = (if has_column df c then Inr (map f (rows df)) else Inl (KeyError c))"

text \<open>\<^verbatim>\<open>df[mask]\<close>: the rows where the mask holds, in order, same columns.\<close>

definition filter_rows :: "(launch \<Rightarrow> bool) \<Rightarrow> frame \<Rightarrow> frame" where
  "filter_rows P df = df\<lparr>rows := filter P (rows df)\<rparr>"

text \<open>\<^verbatim>\<open>Series.max()\<close> and \<^verbatim>\<open>Series.min()\<close>: NaN entries are skipped; the
  result is NaN when nothing is left.\<close>

fun series_max :: "real option list \<Rightarrow> real option" where
  "series_max [] = None"
| "series_max (None # xs) = series_max xs"
| "series_max (Some x # xs) =
     (case series_max xs of None \<Rightarrow> Some x | Some m \<Rightarrow> Some (max x m))"

fun series_min :: "real option list \<Rightarrow> real option" where
  "series_min [] = None"
| "series_min (None # xs) = series_min xs"
| "series_min (Some x # xs) =
     (case series_min xs of None \<Rightarrow> Some x | Some m \<Rightarrow> Some (min x m))"

text \<open>\<^verbatim>\<open>Series.unique()\<close>: one pass with a table of the values seen so far;
  a value not yet seen is appended to the result.\<close>

fun unique_scan :: "'a list \<Rightarrow> 'a list \<Rightarrow> 'a list" where
  "unique_scan seen [] = rev seen"
| "unique_scan seen (x # xs) =
     (if x \<in> set seen then unique_scan seen xs else unique_scan (x # seen) xs)"

definition unique :: "'a list \<Rightarrow> 'a list" where
  "unique xs = unique_scan [] xs"

text \<open>The three-launch table of the specification's worked example.\<close>

definition example_frame :: frame where
  "example_frame =
     \<lparr>columns = dashboard_columns,
      rows = [\<lparr>payload_mass = Some 500, launch_site = ''A'', outcome_class = 1,
               booster_category = ''B1''\<rparr>,
              \<lparr>payload_mass = Some 500, launch_site = ''A'', outcome_class = 0,
               booster_category = ''B2''\<rparr>,
              \<lparr>payload_mass = Some 9000, launch_site = ''B'', outcome_class = 1,
               booster_category = ''B1''\<rparr>]\<rparr>"

section \<open>Properties of the pandas operations\<close>

lemma column_ok [simp]: "has_column df c \<Longrightarrow> column df c f = Inr (map f (rows df))"
  by (simp add: column_def)

lemma column_missing [simp]: "\<not> has_column df c \<Longrightarrow> column df c f = Inl (KeyError c)"
  by (simp add: column_def)

lemma filter_rows_columns [simp]: "columns (filter_rows P df) = columns df"
  and filter_rows_rows [simp]: "rows (filter_rows P df) = filter P (rows df)"
  by (simp_all add: filter_rows_def)

lemma filter_rows_filter_rows [simp]:
  "filter_rows P (filter_rows Q df) = filter_rows (\<lambda>r. Q r \<and> P r) df"
  by (simp add: filter_rows_def)

lemma has_column_filter_rows [simp]: "has_column (filter_rows P df) c = has_column df c"
  by (simp add: has_column_def)

lemma well_formed_has_column:
  "well_formed df \<Longrightarrow> c \<in> set dashboard_columns \<Longrightarrow> has_column df c"
  by (auto simp: well_formed_def has_column_def)

lemma well_formed_example: "well_formed example_frame"
  by (simp add: well_formed_def example_frame_def)

lemma has_column_example:
  "has_column example_frame c \<longleftrightarrow> c \<in> set dashboard_columns"
  by (simp add: has_column_def example_frame_def)

lemma series_max_None: "series_max xs = None \<longleftrightarrow> set xs \<subseteq> {None}"
  by (induction xs rule: series_max.induct) (auto split: option.splits)

lemma series_min_None: "series_min xs = None \<longleftrightarrow> set xs \<subseteq> {None}"
  by (induction xs rule: series_min.induct) (auto split: option.splits)

lemma series_max_Some:
  "series_max xs = Some m \<Longrightarrow> Some m \<in> set xs \<and> (\<forall>x. Some x \<in> set xs \<longrightarrow> x \<le> m)"
  by (induction xs arbitrary: m rule: series_max.induct)
     (auto split: option.splits simp: max_def series_max_None)

lemma series_min_Some:
  "series_min xs = Some m \<Longrightarrow> Some m \<in> set xs \<and> (\<forall>x. Some x \<in> set xs \<longrightarrow> m \<le> x)"
  by (induction xs arbitrary: m rule: series_min.induct)
     (auto split: option.splits if_split_asm simp: min_def series_min_None)

lemma unique_scan_dedup:
  "unique_scan seen xs = rev seen @ dedup (filter (\<lambda>y. y \<notin> set seen) xs)"
proof (induction seen xs rule: unique_scan.induct)
  case (1 seen)
  then show ?case by simp
next
  case (2 seen x xs)
  show ?case
  proof (cases "x \<in> set seen")
    case True
    with "2.IH"(1) show ?thesis by simp
  next
    case False
    have "filter (\<lambda>y. y \<notin> set (x # seen)) xs =
          filter (\<lambda>y. y \<noteq> x) (filter (\<lambda>y. y \<notin> set seen) xs)"
      by (auto simp: filter_filter intro: filter_cong)
    with False "2.IH"(2) show ?thesis by simp
  qed
qed

end
