(* ===== verification/Loader.thy ===== *)
theory Loader
  imports Frame
begin

text \<open>
  The module-level start-up code of \<^verbatim>\<open>src/spacex_dash_app.py\<close> (lines 12--25):
  reading the CSV with a fallback table when the file is missing, then the payload
  extrema the slider starts from. What \<^verbatim>\<open>pd.read_csv\<close> returned is an input of
  the model (\<open>csv_read\<close>): a parsed frame, a missing file, or another failure
  (a malformed file), which the code does not catch.
\<close>

datatype csv_read =
    CsvParsed frame
  | CsvNotFound
  | CsvFails string

definition not_found_message :: string where
  "not_found_message =
     ''Error: 'spacex_launch_dash.csv' not found. Please ensure the file is in the correct directory.''"

text \<open>The one-row table built in the \<^verbatim>\<open>except FileNotFoundError\<close> branch. The
  comment at line 16 calls it an empty DataFrame, but the code gives each column a
  one-element list, so the table has one launch (payload 0, site \<^verbatim>\<open>Default\<close>);
  \<open>Host.startup_file_missing\<close> shows what this changes for the slider.\<close>

definition placeholder_frame :: frame where
  "placeholder_frame =
     \<lparr>columns = [col_payload, col_site, col_class, col_booster],
      rows = [\<lparr>payload_mass = Some 0, launch_site = ''Default'', outcome_class = 0,
               booster_category = ''Default''\<rparr>]\<rparr>"

text \<open>The \<^verbatim>\<open>try\<close>/\<^verbatim>\<open>except\<close> of lines 12--22: the frame and the lines
  printed to the console.\<close>

definition load_dataset :: "csv_read \<Rightarrow> (frame \<times> string list) result" where
  "load_dataset r =
     (case r of
        CsvParsed df \<Rightarrow> Inr (df, [])
      | CsvNotFound \<Rightarrow> Inr (placeholder_frame, [not_found_message])
      | CsvFails msg \<Rightarrow> Inl (ReadFailure msg))"

text \<open>Lines 24--25: \<open>(max_payload, min_payload)\<close>; each indexes the payload column.\<close>

definition payload_extrema :: "frame \<Rightarrow> (real option \<times> real option) result" where
  "payload_extrema df =
     (case column df col_payload payload_mass of
        Inl e \<Rightarrow> Inl e
      | Inr ps \<Rightarrow> Inr (series_max ps, series_min ps))"

lemma well_formed_placeholder: "well_formed placeholder_frame"
  by (simp add: well_formed_def placeholder_frame_def dashboard_columns_def)

lemma load_dataset_frame:
  "load_dataset r = Inr (df, out) \<Longrightarrow>
   r = CsvParsed df \<and> out = [] \<or> r = CsvNotFound \<and> df = placeholder_frame"
  by (cases r) (auto simp: load_dataset_def)

lemma payload_extrema_Inr:
  "payload_extrema df = Inr (mx, mn) \<longleftrightarrow>
   has_column df col_payload \<and> mx = series_max (map payload_mass (rows df)) \<and>
   mn = series_min (map payload_mass (rows df))"
  by (auto simp: payload_extrema_def column_def)

end
