(* ===== verification/Layout.thy ===== *)
theory Layout
  imports Loader
begin

text \<open>
  The static page built once at start-up (\<^verbatim>\<open>app.layout\<close>,
  \<^verbatim>\<open>src/spacex_dash_app.py\<close> lines 31--74): the heading, the site dropdown whose
  options are \<^verbatim>\<open>'ALL'\<close> and the distinct sites in first-seen order, the two graph
  placeholders, and the payload range slider with its fixed domain 0--10000, its marks
  \<^verbatim>\<open>{i: str(i) for i in range(0, 10001, 1000)}\<close> and its initial value from the
  payload extrema. Styles are presentational and not modelled. Python's
  \<^verbatim>\<open>range\<close> and \<^verbatim>\<open>str\<close> on integers are modelled as \<open>py_range\<close> and
  \<open>py_str_int\<close>.
\<close>

section \<open>Page description\<close>

record dropdown =
  dropdown_id :: string
  options :: "(string \<times> string) list"
  dropdown_value :: string
  placeholder :: string
  searchable :: bool

record range_slider =
  slider_id :: string
  slider_min :: int
  slider_max :: int
  slider_step :: int
  marks :: "(int \<times> string) list"
  slider_value :: "real list"

record page =
  heading :: string
  site_dropdown :: dropdown
  pie_graph_id :: string
  range_caption :: string
  payload_slider :: range_slider
  scatter_graph_id :: string

section \<open>Python builtins\<close>

text \<open>\<^verbatim>\<open>range(start, stop, step)\<close> for a non-zero step.\<close>

function py_range :: "int \<Rightarrow> int \<Rightarrow> int \<Rightarrow> int list" where
  "py_range a b s =
     (if (0 < s \<and> a < b) \<or> (s < 0 \<and> b < a) then a # py_range (a + s) b s else [])"
  by pat_completeness auto
termination
  by (relation "measure (\<lambda>(a, b, s). nat (if 0 < s then b - a else a - b))") auto

declare py_range.simps [simp del]

text \<open>\<^verbatim>\<open>str(i)\<close> on an integer: decimal digits, a minus sign when negative.\<close>

definition digit_char :: "nat \<Rightarrow> char" where
  "digit_char d = ''0123456789'' ! d"

fun digits10 :: "nat \<Rightarrow> string" where
  "digits10 n =
     (if n < 10 then [digit_char n] else digits10 (n div 10) @ [digit_char (n mod 10)])"

declare digits10.simps [simp del]

definition py_str_int :: "int \<Rightarrow> string" where
  "py_str_int i = (if i < 0 then CHR ''-'' # digits10 (nat (- i)) else digits10 (nat i))"

section \<open>The layout\<close>

text \<open>Line 43: \<^verbatim>\<open>'All Sites'\<close>/\<^verbatim>\<open>'ALL'\<close>, then one option per distinct site.\<close>

definition site_options :: "frame \<Rightarrow> (string \<times> string) list result" where
  "site_options df =
     (case column df col_site launch_site of
        Inl e \<Rightarrow> Inl e
      | Inr sites \<Rightarrow> Inr ((''All Sites'', ''ALL'') # map (\<lambda>s. (s, s)) (unique sites)))"

definition slider_marks :: "(int \<times> string) list" where
  "slider_marks = map (\<lambda>i. (i, py_str_int i)) (py_range 0 10001 1000)"

text \<open>Lines 67--68: the extrema, each replaced by a fixed bound when it is NaN.\<close>

definition initial_range :: "real option \<Rightarrow> real option \<Rightarrow> real list" where
  "initial_range max_payload min_payload =
     [(case min_payload of Some m \<Rightarrow> m | None \<Rightarrow> 0),
      (case max_payload of Some m \<Rightarrow> m | None \<Rightarrow> 10000)]"

definition build_layout :: "frame \<Rightarrow> real option \<Rightarrow> real option \<Rightarrow> page result" where
  "build_layout df max_payload min_payload =
     (case site_options df of
        Inl e \<Rightarrow> Inl e
      | Inr opts \<Rightarrow>
          Inr \<lparr>heading = ''SpaceX Launch Records Dashboard'',
               site_dropdown = \<lparr>dropdown_id = ''site-dropdown'', options = opts,
                                dropdown_value = ''ALL'', placeholder = ''Select a Launch Site'',
                                searchable = True\<rparr>,
               pie_graph_id = ''success-pie-chart'',
               range_caption = ''Payload range (Kg):'',
               payload_slider = \<lparr>slider_id = ''payload-slider'', slider_min = 0,
                                 slider_max = 10000, slider_step = 1000, marks = slider_marks,
                                 slider_value = initial_range max_payload min_payload\<rparr>,
               scatter_graph_id = ''success-payload-scatter-chart''\<rparr>)"

text \<open>The page built for a table (when its site column is present), for the
  witnesses below.\<close>

definition the_page :: "frame \<Rightarrow> page" where
  "the_page df =
     \<lparr>heading = ''SpaceX Launch Records Dashboard'',
      site_dropdown = \<lparr>dropdown_id = ''site-dropdown'',
                       options = (''All Sites'', ''ALL'') #
                                 map (\<lambda>s. (s, s)) (unique (map launch_site (rows df))),
                       dropdown_value = ''ALL'', placeholder = ''Select a Launch Site'',
                       searchable = True\<rparr>,
      pie_graph_id = ''success-pie-chart'',
      range_caption = ''Payload range (Kg):'',
      payload_slider = \<lparr>slider_id = ''payload-slider'', slider_min = 0,
                        slider_max = 10000, slider_step = 1000, marks = slider_marks,
                        slider_value = initial_range None None\<rparr>,
      scatter_graph_id = ''success-payload-scatter-chart''\<rparr>"

text \<open>A table with a payload beyond the slider's domain (a heavy launch).\<close>

definition heavy_frame :: frame where
  "heavy_frame =
     \<lparr>columns = dashboard_columns,
      rows = [\<lparr>payload_mass = Some 500, launch_site = ''A'', outcome_class = 1,
               booster_category = ''B1''\<rparr>,
              \<lparr>payload_mass = Some 15600, launch_site = ''A'', outcome_class = 1,
               booster_category = ''B5''\<rparr>]\<rparr>"

section \<open>Lemmas\<close>

lemma build_layout_Inr:
  "build_layout df mx mn = Inr p \<Longrightarrow>
   has_column df col_site \<and>
   options (site_dropdown p) =
     (''All Sites'', ''ALL'') # map (\<lambda>s. (s, s)) (unique (map launch_site (rows df))) \<and>
   dropdown_value (site_dropdown p) = ''ALL'' \<and>
   slider_min (payload_slider p) = 0 \<and> slider_max (payload_slider p) = 10000 \<and>
   slider_value (payload_slider p) = initial_range mx mn"
  by (auto simp: build_layout_def site_options_def column_def split: sum.splits if_splits)

lemma initial_range_extrema:
  assumes "payload_extrema df = Inr (mx, mn)"
  shows "(\<forall>r\<in>set (rows df). payload_mass r = None) \<and> initial_range mx mn = [0, 10000] \<or>
    (\<exists>m M. mn = Some m \<and> mx = Some M \<and> initial_range mx mn = [m, M] \<and>
       (\<exists>r\<in>set (rows df). payload_mass r = Some m) \<and> (\<exists>r\<in>set (rows df). payload_mass r = Some M) \<and>
       (\<forall>r\<in>set (rows df). \<forall>p. payload_mass r = Some p \<longrightarrow> m \<le> p \<and> p \<le> M))"
proof -
  let ?ps = "map payload_mass (rows df)"
  have mx: "mx = series_max ?ps" and mn: "mn = series_min ?ps"
    using assms by (simp_all add: payload_extrema_Inr)
  show ?thesis
  proof (cases "series_max ?ps")
    case None
    then have "series_min ?ps = None" by (simp add: series_max_None series_min_None)
    with None mx mn have "mx = None" and "mn = None" by simp_all
    moreover have "\<forall>r\<in>set (rows df). payload_mass r = None"
      using None by (auto simp: series_max_None)
    ultimately show ?thesis
      by (simp add: initial_range_def)
  next
    case (Some M)
    have "series_min ?ps \<noteq> None"
      unfolding series_min_None series_max_None [symmetric] using Some by simp
    then obtain m where m: "series_min ?ps = Some m"
      by blast
    from series_max_Some [OF Some] have M1: "Some M \<in> set ?ps"
      and M2: "\<forall>x. Some x \<in> set ?ps \<longrightarrow> x \<le> M" by simp_all
    from series_min_Some [OF m] have m1: "Some m \<in> set ?ps"
      and m2: "\<forall>x. Some x \<in> set ?ps \<longrightarrow> m \<le> x" by simp_all
    have "initial_range mx mn = [m, M]"
      using Some m mx mn by (simp add: initial_range_def)
    moreover have "\<exists>r\<in>set (rows df). payload_mass r = Some m"
      using m1 by auto
    moreover have "\<exists>r\<in>set (rows df). payload_mass r = Some M"
      using M1 by auto
    moreover have "\<forall>r\<in>set (rows df). \<forall>p. payload_mass r = Some p \<longrightarrow> m \<le> p \<and> p \<le> M"
      using M2 m2 by force
    ultimately show ?thesis
      using Some m mx mn by blast
  qed
qed

section \<open>Claims\<close>

text \<open>C12. A built page's dropdown offers \<^verbatim>\<open>All Sites\<close>/\<^verbatim>\<open>ALL\<close> first, then
  each distinct launch site once, in the order the sites first occur in the table, and
  starts on \<^verbatim>\<open>ALL\<close>.\<close>

theorem layout_dropdown_options:
  assumes "build_layout df mx mn = Inr p"
  shows "options (site_dropdown p) =
      (''All Sites'', ''ALL'') # map (\<lambda>s. (s, s)) (dedup (map launch_site (rows df))) \<and>
    dropdown_value (site_dropdown p) = ''ALL''"
  using build_layout_Inr [OF assms] by (simp add: unique_def unique_scan_dedup)

lemma layout_dropdown_options_witness:
  "build_layout example_frame None None = Inr (the_page example_frame) \<and>
   options (site_dropdown (the_page example_frame)) =
     [(''All Sites'', ''ALL''), (''A'', ''A''), (''B'', ''B'')]"
proof -
  have h: "build_layout example_frame None None = Inr (the_page example_frame)"
    by (simp add: build_layout_def the_page_def site_options_def has_column_example
                  dashboard_columns_def)
  show ?thesis
    using layout_dropdown_options [OF h] h by (simp add: example_frame_def)
qed

text \<open>C13. The dropdown's option values are pairwise distinct exactly when no launch
  site is itself named \<^verbatim>\<open>ALL\<close>; otherwise that site cannot be selected apart from
  the all-sites view.\<close>

theorem dropdown_values_distinct:
  assumes "build_layout df mx mn = Inr p"
  shows "distinct (map snd (options (site_dropdown p))) \<longleftrightarrow>
    ''ALL'' \<notin> launch_site ` set (rows df)"
  using build_layout_Inr [OF assms] by (simp add: unique_def unique_scan_dedup comp_def)

lemma dropdown_values_distinct_witness:
  "build_layout example_frame None None = Inr (the_page example_frame) \<and>
   distinct (map snd (options (site_dropdown (the_page example_frame))))"
proof -
  have h: "build_layout example_frame None None = Inr (the_page example_frame)"
    by (simp add: build_layout_def the_page_def site_options_def has_column_example
                  dashboard_columns_def)
  have "''ALL'' \<notin> launch_site ` set (rows example_frame)"
    by (simp add: example_frame_def)
  then show ?thesis
    using dropdown_values_distinct [OF h] h by simp
qed

text \<open>C14. The slider's initial value is an interval \<open>[lo, hi]\<close> with
  \<open>lo \<le> hi\<close> that contains every payload of the table that is not NaN.\<close>

theorem initial_range_bounds:
  assumes "payload_extrema df = Inr (mx, mn)"
  shows "\<exists>lo hi. initial_range mx mn = [lo, hi] \<and> lo \<le> hi \<and>
    (\<forall>r\<in>set (rows df). \<forall>p. payload_mass r = Some p \<longrightarrow> lo \<le> p \<and> p \<le> hi)"
  using initial_range_extrema [OF assms]
proof
  assume "(\<forall>r\<in>set (rows df). payload_mass r = None) \<and> initial_range mx mn = [0, 10000]"
  then show ?thesis by auto
next
  assume "\<exists>m M. mn = Some m \<and> mx = Some M \<and> initial_range mx mn = [m, M] \<and>
       (\<exists>r\<in>set (rows df). payload_mass r = Some m) \<and> (\<exists>r\<in>set (rows df). payload_mass r = Some M) \<and>
       (\<forall>r\<in>set (rows df). \<forall>p. payload_mass r = Some p \<longrightarrow> m \<le> p \<and> p \<le> M)"
  then obtain m M where i: "initial_range mx mn = [m, M]"
    and r: "\<exists>r\<in>set (rows df). payload_mass r = Some m"
    and b: "\<forall>r\<in>set (rows df). \<forall>p. payload_mass r = Some p \<longrightarrow> m \<le> p \<and> p \<le> M"
    by blast
  from r b have "m \<le> M" by blast
  with i b show ?thesis by blast
qed

lemma initial_range_bounds_witness:
  "payload_extrema example_frame = Inr (Some 9000, Some 500) \<and>
   initial_range (Some 9000) (Some 500) = [500, 9000]"
proof -
  have h: "payload_extrema example_frame = Inr (Some 9000, Some 500)"
    by (simp add: payload_extrema_def has_column_example dashboard_columns_def)
       (simp add: example_frame_def)
  show ?thesis
    using initial_range_bounds [OF h] h by (simp add: initial_range_def)
qed

text \<open>C15. The slider's initial value lies inside its fixed domain 0--10000 exactly
  when every non-NaN payload of the table does; a heavier payload puts the initial
  handle outside the control's range.\<close>

theorem initial_value_in_domain:
  assumes "payload_extrema df = Inr (mx, mn)" and "initial_range mx mn = [lo, hi]"
  shows "(0 \<le> lo \<and> hi \<le> 10000) \<longleftrightarrow>
    (\<forall>r\<in>set (rows df). \<forall>p. payload_mass r = Some p \<longrightarrow> 0 \<le> p \<and> p \<le> 10000)"
  using initial_range_extrema [OF assms(1)]
proof
  assume "(\<forall>r\<in>set (rows df). payload_mass r = None) \<and> initial_range mx mn = [0, 10000]"
  with assms(2) show ?thesis by auto
next
  assume "\<exists>m M. mn = Some m \<and> mx = Some M \<and> initial_range mx mn = [m, M] \<and>
       (\<exists>r\<in>set (rows df). payload_mass r = Some m) \<and> (\<exists>r\<in>set (rows df). payload_mass r = Some M) \<and>
       (\<forall>r\<in>set (rows df). \<forall>p. payload_mass r = Some p \<longrightarrow> m \<le> p \<and> p \<le> M)"
  then obtain m M where i: "initial_range mx mn = [m, M]"
    and rm: "\<exists>r\<in>set (rows df). payload_mass r = Some m"
    and rM: "\<exists>r\<in>set (rows df). payload_mass r = Some M"
    and b: "\<forall>r\<in>set (rows df). \<forall>p. payload_mass r = Some p \<longrightarrow> m \<le> p \<and> p \<le> M"
    by blast
  from i assms(2) have "lo = m" and "hi = M" by simp_all
  with rm rM b show ?thesis by fastforce
qed

lemma initial_value_in_domain_witness:
  "payload_extrema heavy_frame = Inr (Some 15600, Some 500) \<and>
   initial_range (Some 15600) (Some 500) = [500, 15600] \<and>
   \<not> (\<forall>r\<in>set (rows heavy_frame). \<forall>p. payload_mass r = Some p \<longrightarrow> 0 \<le> p \<and> p \<le> 10000)"
proof -
  have h: "payload_extrema heavy_frame = Inr (Some 15600, Some 500)"
    by (simp add: payload_extrema_def heavy_frame_def has_column_def dashboard_columns_def)
  have i: "initial_range (Some 15600) (Some 500) = [500, 15600]"
    by (simp add: initial_range_def)
  show ?thesis
    using initial_value_in_domain [OF h i] h i by simp
qed

text \<open>C16. Building the page fails exactly when the table has no
  \<^verbatim>\<open>Launch Site\<close> column, with that \<^verbatim>\<open>KeyError\<close>.\<close>

theorem layout_missing_site:
  "build_layout df mx mn = Inl e \<longleftrightarrow> \<not> has_column df col_site \<and> e = KeyError col_site"
  by (auto simp: build_layout_def site_options_def column_def split: if_splits)

end
