(* ===== verification/Figure.thy ===== *)
theory Figure
  imports Frame
begin

text \<open>
  The interface between the two callbacks and the host: the chart descriptions that
  \<^verbatim>\<open>plotly.express\<close> builds from a frame and that the host hands to the renderer.
  A pie description carries the label of every entry and, when given, their values; a
  scatter description carries one point per row. \<open>px_pie_names\<close> and
  \<open>px_scatter\<close> are the two \<^verbatim>\<open>px\<close> calls the code makes on frames, with the
  \<^verbatim>\<open>ValueError\<close> plotly raises for a column the frame lacks. \<open>pie_slices\<close> is the
  renderer's reading of a pie (entries with the same label are one slice, their values
  summed, an entry without a value counting 1); it is the contract the pie claims are
  stated against. It does not model the order in which plotly draws the slices.
\<close>

type_synonym point = "real option \<times> int \<times> string"

datatype figure =
    PieFigure (pie_names: "string list") (pie_values: "nat list option") (fig_title: string)
  | ScatterFigure (scatter_data: "point list") (fig_title: string)
  | EmptyFigure (fig_title: string)

text \<open>A row as a scatter point: x the payload, y the outcome, colour the booster.\<close>

definition row_point :: "launch \<Rightarrow> point" where
  "row_point r = (payload_mass r, outcome_class r, booster_category r)"

text \<open>\<^verbatim>\<open>px.pie(df, names='Launch Site', title=t)\<close>.\<close>

definition px_pie_names :: "frame \<Rightarrow> string \<Rightarrow> figure result" where
  "px_pie_names df t =
     (if has_column df col_site then Inr (PieFigure (map launch_site (rows df)) None t)
      else Inl (ValueError ''names''))"

text \<open>\<^verbatim>\<open>px.scatter(df, x='Payload Mass (kg)', y='class',
  color='Booster Version Category', title=t)\<close>: plotly checks the three columns in
  argument order.\<close>

definition px_scatter :: "frame \<Rightarrow> string \<Rightarrow> figure result" where
  "px_scatter df t =
     (if \<not> has_column df col_payload then Inl (ValueError ''x'')
      else if \<not> has_column df col_class then Inl (ValueError ''y'')
      else if \<not> has_column df col_booster then Inl (ValueError ''color'')
      else Inr (ScatterFigure (map row_point (rows df)) t))"

text \<open>The renderer's slices of a pie: which slices exist and their sizes, listed in
  first-seen label order. This is a listing order, not the drawing order: plotly's pie
  trace has \<^verbatim>\<open>sort=True\<close> by default and draws the slices largest first, so the
  drawn order is this list stably sorted by decreasing size. The code sets no
  \<^verbatim>\<open>sort\<close> argument, and no claim here depends on the drawing order.\<close>

fun pie_slices :: "figure \<Rightarrow> (string \<times> nat) list" where
  "pie_slices (PieFigure ns None t) = group_sum (map (\<lambda>n. (n, 1)) ns)"
| "pie_slices (PieFigure ns (Some vs) t) = group_sum (zip ns vs)"
| "pie_slices _ = []"

text \<open>The points a figure plots.\<close>

fun plotted :: "figure \<Rightarrow> point list" where
  "plotted (ScatterFigure ps t) = ps"
| "plotted _ = []"

lemma px_scatter_ok:
  "well_formed df \<Longrightarrow> px_scatter df t = Inr (ScatterFigure (map row_point (rows df)) t)"
  by (simp add: px_scatter_def well_formed_has_column dashboard_columns_def)

lemma px_pie_names_ok:
  "has_column df col_site \<Longrightarrow> px_pie_names df t = Inr (PieFigure (map launch_site (rows df)) None t)"
  by (simp add: px_pie_names_def)

lemma px_scatter_Inr:
  "px_scatter df t = Inr f \<Longrightarrow> f = ScatterFigure (map row_point (rows df)) t"
  by (simp add: px_scatter_def split: if_splits)

lemma sum_filter_key_ones:
  "sum_list (map snd (filter (\<lambda>p. fst p = k) (map (\<lambda>n. (n, Suc 0)) ns))) = count_list ns k"
  by (induction ns) auto

lemma pie_slices_names:
  "pie_slices (PieFigure ns None t) = map (\<lambda>s. (s, count_list ns s)) (dedup ns)"
  by (simp add: group_sum_def comp_def sum_filter_key_ones)

text \<open>A pie given by names only is read through \<open>pie_slices_names\<close> from here on.\<close>

declare pie_slices.simps(1) [simp del] pie_slices_names [simp]

lemma pie_slices_pairs:
  "distinct (map fst ps) \<Longrightarrow> pie_slices (PieFigure (map fst ps) (Some (map snd ps)) t) = ps"
  by (simp add: zip_map_fst_snd group_sum_distinct)

lemma pie_slices_names_total:
  "sum_list (map snd (pie_slices (PieFigure ns None t))) = length ns"
proof -
  have "sum_list (map snd (pie_slices (PieFigure ns None t))) = sum (count_list ns) (set ns)"
    by (simp add: comp_def sum_list_distinct_conv_sum_set)
  also have "\<dots> = length ns"
    by (rule sum_count_set) auto
  finally show ?thesis .
qed

end
