(* ===== verification/Pie.thy ===== *)
theory Pie
  imports Figure
begin

text \<open>
  The pie-chart callback \<^verbatim>\<open>get_pie_chart\<close> (\<^verbatim>\<open>src/spacex_dash_app.py\<close>,
  lines 81--103) and the pandas steps it uses: the outcome labelling
  \<^verbatim>\<open>.map({1: 'Success', 0: 'Failure'})\<close>, which turns any other class into NaN,
  and \<^verbatim>\<open>value_counts()\<close>, which drops NaN and lists each value with its count,
  largest count first. The theorems relate the description the callback returns to the
  slices the renderer draws (\<open>Figure.pie_slices\<close>).
\<close>

section \<open>pandas steps\<close>

definition status_label :: "int \<Rightarrow> string option" where
  "status_label c =
     (if c = 1 then Some ''Success'' else if c = 0 then Some ''Failure'' else None)"

text \<open>\<^verbatim>\<open>Series.value_counts()\<close>: NaN dropped, the distinct values in first-seen
  order, then a stable sort by decreasing count.\<close>

definition value_counts :: "'a option list \<Rightarrow> ('a \<times> nat) list" where
  "value_counts xs =
     sort_key (\<lambda>p. - int (snd p))
       (map (\<lambda>v. (v, count_list xs (Some v))) (dedup (List.map_filter (\<lambda>x. x) xs)))"

section \<open>The callback\<close>

definition all_sites_title :: string where
  "all_sites_title = ''Total Successful Launches by Site''"

definition site_pie_title :: "string option \<Rightarrow> string" where
  "site_pie_title s = ''Successful vs. Failed Launches for site '' @ py_format s"

text \<open>
  \<^item> \<^verbatim>\<open>'ALL'\<close>: the rows with class 1 (\<^verbatim>\<open>filtered_df['class']\<close> raises first
    when that column is missing), one pie entry per row named by its site;
  \<^item> otherwise: the rows of the selected site, their outcome labels counted.
\<close>

definition get_pie_chart :: "frame \<Rightarrow> string option \<Rightarrow> figure result" where
  "get_pie_chart df entered_site =
     (if entered_site = Some ''ALL'' then
        (case column df col_class outcome_class of
           Inl e \<Rightarrow> Inl e
         | Inr _ \<Rightarrow> px_pie_names (filter_rows (\<lambda>r. outcome_class r = 1) df) all_sites_title)
      else
        (case column df col_site launch_site of
           Inl e \<Rightarrow> Inl e
         | Inr _ \<Rightarrow>
             (case column (filter_rows (\<lambda>r. Some (launch_site r) = entered_site) df)
                     col_class outcome_class of
                Inl e \<Rightarrow> Inl e
              | Inr cs \<Rightarrow>
                  (let status_counts = value_counts (map status_label cs)
                   in Inr (PieFigure (map fst status_counts) (Some (map snd status_counts))
                             (site_pie_title entered_site))))))"

text \<open>Specification side: the launches of a selected site with a given outcome.\<close>

definition site_outcome_count :: "frame \<Rightarrow> string option \<Rightarrow> int \<Rightarrow> nat" where
  "site_outcome_count df s c =
     length (filter (\<lambda>r. Some (launch_site r) = s \<and> outcome_class r = c) (rows df))"

text \<open>A table read from a CSV without the outcome column.\<close>

definition placeholder_no_class :: frame where
  "placeholder_no_class =
     \<lparr>columns = [col_payload, col_site, col_booster],
      rows = [\<lparr>payload_mass = Some 0, launch_site = ''X'', outcome_class = 0,
               booster_category = ''Y''\<rparr>]\<rparr>"

text \<open>A table whose outcome column holds a value other than 0 and 1.\<close>

definition odd_class_frame :: frame where
  "odd_class_frame =
     \<lparr>columns = dashboard_columns,
      rows = [\<lparr>payload_mass = Some 500, launch_site = ''A'', outcome_class = 1,
               booster_category = ''B1''\<rparr>,
              \<lparr>payload_mass = Some 700, launch_site = ''A'', outcome_class = 2,
               booster_category = ''B1''\<rparr>]\<rparr>"

section \<open>Properties of the pandas steps\<close>

declare value_counts_def [eval_simps] status_label_def [eval_simps] List.map_filter_def [eval_simps]

lemma map_filter_id_Some: "Some v \<in> set xs \<longleftrightarrow> v \<in> set (List.map_filter (\<lambda>x. x) xs)"
  by (induction xs) (auto simp: List.map_filter_def)

lemma count_map_filter_id:
  "count_list (List.map_filter (\<lambda>x. x) xs) v = count_list xs (Some v)"
  by (induction xs) (auto simp: List.map_filter_def)

lemma length_map_filter_id:
  "length (List.map_filter (\<lambda>x. x) xs) = length (filter (\<lambda>x. x \<noteq> None) xs)"
  by (induction xs) (auto simp: List.map_filter_def)

lemma value_counts_set:
  "set (value_counts xs) = {(v, count_list xs (Some v)) | v. Some v \<in> set xs}"
  by (auto simp: value_counts_def map_filter_id_Some)

lemma value_counts_distinct: "distinct (map fst (value_counts xs))"
proof -
  have "map fst (map (\<lambda>v. (v, count_list xs (Some v))) (dedup (List.map_filter (\<lambda>x. x) xs))) =
        dedup (List.map_filter (\<lambda>x. x) xs)"
    by (simp add: comp_def)
  then show ?thesis
    by (simp add: value_counts_def distinct_map_sort_key del: map_map)
qed

lemma value_counts_total:
  "sum_list (map snd (value_counts xs)) = length (filter (\<lambda>x. x \<noteq> None) xs)"
proof -
  let ?ys = "List.map_filter (\<lambda>x. x) xs"
  have "sum_list (map snd (value_counts xs)) =
        sum_list (map (\<lambda>v. count_list ?ys v) (dedup ?ys))"
    by (simp add: value_counts_def sum_list_map_sort_key count_map_filter_id comp_def)
  also have "\<dots> = sum (count_list ?ys) (set ?ys)"
    by (simp add: sum_list_distinct_conv_sum_set)
  also have "\<dots> = length ?ys"
    by (rule sum_count_set) auto
  finally show ?thesis by (simp add: length_map_filter_id)
qed

lemma count_status_label:
  "count_list (map status_label cs) (Some lbl) =
     (if lbl = ''Success'' then count_list cs 1
      else if lbl = ''Failure'' then count_list cs 0 else 0)"
  by (induction cs) (auto simp: status_label_def)

lemma filter_status_label_defined:
  "length (filter (\<lambda>x. x \<noteq> None) (map status_label cs)) = length (filter (\<lambda>c. c \<in> {0, 1}) cs)"
  by (induction cs) (auto simp: status_label_def)

section \<open>The callback's output\<close>

lemma get_pie_chart_all:
  assumes "has_column df col_class" and "has_column df col_site"
  shows "get_pie_chart df (Some ''ALL'') =
    Inr (PieFigure (map launch_site (filter (\<lambda>r. outcome_class r = 1) (rows df))) None all_sites_title)"
  using assms by (simp add: get_pie_chart_def px_pie_names_ok)

lemma get_pie_chart_all_Inr:
  "get_pie_chart df (Some ''ALL'') = Inr f \<Longrightarrow>
   f = PieFigure (map launch_site (filter (\<lambda>r. outcome_class r = 1) (rows df))) None all_sites_title"
  by (auto simp: get_pie_chart_def column_def px_pie_names_def split: if_splits)

lemma get_pie_chart_site_Inr:
  assumes "entered_site \<noteq> Some ''ALL''" and "get_pie_chart df entered_site = Inr f"
  shows "f = PieFigure (map fst (value_counts (map status_label (map outcome_class
                 (filter (\<lambda>r. Some (launch_site r) = entered_site) (rows df))))))
               (Some (map snd (value_counts (map status_label (map outcome_class
                 (filter (\<lambda>r. Some (launch_site r) = entered_site) (rows df)))))))
               (site_pie_title entered_site)"
  using assms by (auto simp: get_pie_chart_def column_def Let_def split: if_splits)

lemma pie_slices_site_Inr:
  assumes "entered_site \<noteq> Some ''ALL''" and "get_pie_chart df entered_site = Inr f"
  shows "pie_slices f = value_counts (map status_label (map outcome_class
                 (filter (\<lambda>r. Some (launch_site r) = entered_site) (rows df))))"
proof -
  let ?vc = "value_counts (map status_label (map outcome_class
                 (filter (\<lambda>r. Some (launch_site r) = entered_site) (rows df))))"
  have "pie_slices f = pie_slices (PieFigure (map fst ?vc) (Some (map snd ?vc)) (site_pie_title entered_site))"
    using get_pie_chart_site_Inr [OF assms] by (simp only:)
  also have "\<dots> = ?vc"
    by (rule pie_slices_pairs [OF value_counts_distinct])
  finally show ?thesis .
qed

lemma count_outcome_site:
  "count_list (map outcome_class (filter (\<lambda>r. Some (launch_site r) = s) (rows df))) c =
   site_outcome_count df s c"
  by (simp add: count_list_map_filter site_outcome_count_def)

lemma pie_site_slice_iff:
  assumes "entered_site \<noteq> Some ''ALL''" and "get_pie_chart df entered_site = Inr f"
  shows "(lbl, n) \<in> set (pie_slices f) \<longleftrightarrow>
    n = count_list (map status_label (map outcome_class
          (filter (\<lambda>r. Some (launch_site r) = entered_site) (rows df)))) (Some lbl) \<and> 0 < n"
proof -
  let ?xs = "map status_label (map outcome_class
                (filter (\<lambda>r. Some (launch_site r) = entered_site) (rows df)))"
  have "(lbl, n) \<in> set (pie_slices f) \<longleftrightarrow> Some lbl \<in> set ?xs \<and> n = count_list ?xs (Some lbl)"
    by (simp only: pie_slices_site_Inr [OF assms] value_counts_set) blast
  moreover have "Some lbl \<in> set ?xs \<longleftrightarrow> 0 < count_list ?xs (Some lbl)"
    using count_list_0_iff [of ?xs "Some lbl"] by auto
  ultimately show ?thesis
    by blast
qed

lemma pie_site_total_all_classes:
  assumes "entered_site \<noteq> Some ''ALL''" and "get_pie_chart df entered_site = Inr f"
  shows "sum_list (map snd (pie_slices f)) =
    length (filter (\<lambda>r. Some (launch_site r) = entered_site \<and> outcome_class r \<in> {0, 1}) (rows df))"
proof -
  have "sum_list (map snd (pie_slices f)) =
        length (filter (\<lambda>c. c \<in> {0, 1}) (map outcome_class
          (filter (\<lambda>r. Some (launch_site r) = entered_site) (rows df))))"
    by (simp only: pie_slices_site_Inr [OF assms] value_counts_total filter_status_label_defined)
  then show ?thesis
    by (simp add: filter_map filter_filter comp_def)
qed

text \<open>Without binary outcomes the per-site total falls short: a launch with class 2
  is labelled NaN by \<^verbatim>\<open>.map\<close> and dropped by \<^verbatim>\<open>value_counts\<close>, so it appears
  in no slice.\<close>

lemma pie_site_drops_other_outcomes:
  "get_pie_chart odd_class_frame (Some ''A'') =
     Inr (PieFigure [''Success''] (Some [1]) (site_pie_title (Some ''A''))) \<and>
   sum_list (map snd (pie_slices (PieFigure [''Success''] (Some [1]) (site_pie_title (Some ''A''))))) = 1 \<and>
   length (filter (\<lambda>r. Some (launch_site r) = Some ''A'') (rows odd_class_frame)) = 2"
  by (simp add: get_pie_chart_def odd_class_frame_def has_column_def dashboard_columns_def
                eval_simps)

section \<open>Claims\<close>

text \<open>C1. With both columns present, the all-sites pie has one slice per launch site
  that has a successful launch, listed in first-seen order, sized by that site's number
  of successful launches (plotly draws these slices largest first; see \<open>pie_slices\<close>).\<close>

theorem pie_all_sites_slices:
  assumes "has_column df col_class" and "has_column df col_site"
  shows "\<exists>f. get_pie_chart df (Some ''ALL'') = Inr f \<and>
    pie_slices f =
      map (\<lambda>s. (s, length (filter (\<lambda>r. outcome_class r = 1 \<and> launch_site r = s) (rows df))))
          (dedup (map launch_site (filter (\<lambda>r. outcome_class r = 1) (rows df))))"
  using get_pie_chart_all [OF assms] by (simp add: count_list_map_filter)

lemma pie_all_sites_slices_witness:
  "has_column example_frame col_class \<and> has_column example_frame col_site \<and>
   (\<exists>f. get_pie_chart example_frame (Some ''ALL'') = Inr f \<and>
        pie_slices f = [(''A'', 1), (''B'', 1)])"
proof -
  have h1: "has_column example_frame col_class" and h2: "has_column example_frame col_site"
    by (simp_all add: has_column_example dashboard_columns_def)
  show ?thesis
    using pie_all_sites_slices [OF h1 h2] h1 h2 by (simp add: example_frame_def)
qed

text \<open>C2. Whenever the all-sites pie is drawn, its slices add up to the number of
  successful launches and there are as many slices as distinct sites among them.\<close>

theorem pie_all_sites_total:
  assumes "get_pie_chart df (Some ''ALL'') = Inr f"
  shows "sum_list (map snd (pie_slices f)) = length (filter (\<lambda>r. outcome_class r = 1) (rows df)) \<and>
    length (pie_slices f) = card (launch_site ` {r \<in> set (rows df). outcome_class r = 1})"
proof -
  have f: "f = PieFigure (map launch_site (filter (\<lambda>r. outcome_class r = 1) (rows df))) None all_sites_title"
    by (rule get_pie_chart_all_Inr [OF assms])
  have "length (pie_slices f) = card (set (map launch_site (filter (\<lambda>r. outcome_class r = 1) (rows df))))"
    by (simp add: f length_dedup)
  moreover have "set (map launch_site (filter (\<lambda>r. outcome_class r = 1) (rows df))) =
                 launch_site ` {r \<in> set (rows df). outcome_class r = 1}"
    by auto
  moreover have "sum_list (map snd (pie_slices f)) =
                 length (map launch_site (filter (\<lambda>r. outcome_class r = 1) (rows df)))"
    unfolding f by (rule pie_slices_names_total)
  ultimately show ?thesis
    by simp
qed

lemma pie_all_sites_total_witness:
  "get_pie_chart example_frame (Some ''ALL'') = Inr (PieFigure [''A'', ''B''] None all_sites_title) \<and>
   sum_list (map snd (pie_slices (PieFigure [''A'', ''B''] None all_sites_title))) = 2"
proof -
  have h: "get_pie_chart example_frame (Some ''ALL'') = Inr (PieFigure [''A'', ''B''] None all_sites_title)"
    by (simp add: get_pie_chart_def has_column_example dashboard_columns_def px_pie_names_def)
       (simp add: example_frame_def)
  show ?thesis
    using pie_all_sites_total [OF h] h by (simp add: example_frame_def)
qed

text \<open>C3. For a selected site (anything but \<^verbatim>\<open>'ALL'\<close>, including a cleared
  dropdown), whenever the pie is drawn its slices are exactly a \<^verbatim>\<open>Success\<close> slice
  sized by the site's successful launches and a \<^verbatim>\<open>Failure\<close> slice sized by its
  failed launches, each present only when its count is not zero.\<close>

theorem pie_site_slices:
  assumes "entered_site \<noteq> Some ''ALL''" and "get_pie_chart df entered_site = Inr f"
  shows "(lbl, n) \<in> set (pie_slices f) \<longleftrightarrow> 0 < n \<and>
    (lbl = ''Success'' \<and> n = site_outcome_count df entered_site 1 \<or>
     lbl = ''Failure'' \<and> n = site_outcome_count df entered_site 0)"
  using pie_site_slice_iff [OF assms, of lbl n]
  by (auto simp: count_status_label count_outcome_site simp del: map_map)

lemma pie_site_slices_witness:
  "Some ''A'' \<noteq> Some ''ALL'' \<and>
   get_pie_chart example_frame (Some ''A'') =
     Inr (PieFigure [''Success'', ''Failure''] (Some [1, 1]) (site_pie_title (Some ''A''))) \<and>
   ((''Success'', 1) \<in> set (pie_slices (PieFigure [''Success'', ''Failure''] (Some [1, 1])
                                (site_pie_title (Some ''A'')))))"
proof -
  have h: "get_pie_chart example_frame (Some ''A'') =
     Inr (PieFigure [''Success'', ''Failure''] (Some [1, 1]) (site_pie_title (Some ''A'')))"
    by (simp add: get_pie_chart_def has_column_example dashboard_columns_def)
       (simp add: example_frame_def eval_simps)
  have "(''Success'', 1) \<in> set (pie_slices (PieFigure [''Success'', ''Failure''] (Some [1, 1])
                                (site_pie_title (Some ''A''))))"
    using pie_site_slices [of "Some ''A''" example_frame, OF _ h, of "''Success''" 1]
    by (simp add: site_outcome_count_def example_frame_def)
  with h show ?thesis by simp
qed

text \<open>C4. When every outcome is 0 or 1, a drawn per-site pie's slices add up to the
  number of launches from that site.\<close>

theorem pie_site_total:
  assumes "entered_site \<noteq> Some ''ALL''" and "get_pie_chart df entered_site = Inr f"
    and "binary_classes df"
  shows "sum_list (map snd (pie_slices f)) =
    length (filter (\<lambda>r. Some (launch_site r) = entered_site) (rows df))"
proof -
  have "filter (\<lambda>r. Some (launch_site r) = entered_site \<and> outcome_class r \<in> {0, 1}) (rows df) =
        filter (\<lambda>r. Some (launch_site r) = entered_site) (rows df)"
    using assms(3) by (auto simp: binary_classes_def intro: filter_cong)
  then show ?thesis
    using pie_site_total_all_classes [OF assms(1,2)] by simp
qed

lemma pie_site_total_witness:
  "Some ''A'' \<noteq> Some ''ALL'' \<and>
   get_pie_chart example_frame (Some ''A'') =
     Inr (PieFigure [''Success'', ''Failure''] (Some [1, 1]) (site_pie_title (Some ''A''))) \<and>
   binary_classes example_frame \<and>
   sum_list (map snd (pie_slices (PieFigure [''Success'', ''Failure''] (Some [1, 1])
                                   (site_pie_title (Some ''A''))))) = 2"
proof -
  have h: "get_pie_chart example_frame (Some ''A'') =
     Inr (PieFigure [''Success'', ''Failure''] (Some [1, 1]) (site_pie_title (Some ''A'')))"
    by (simp add: get_pie_chart_def has_column_example dashboard_columns_def)
       (simp add: example_frame_def eval_simps)
  have b: "binary_classes example_frame"
    by (simp add: binary_classes_def example_frame_def)
  show ?thesis
    using pie_site_total [of "Some ''A''" example_frame, OF _ h b] h b
    by (simp add: example_frame_def)
qed

text \<open>C5. The pie callback raises the \<^verbatim>\<open>KeyError\<close> of the first column it reads
  that the frame lacks: \<^verbatim>\<open>class\<close> for all sites, \<^verbatim>\<open>Launch Site\<close> then
  \<^verbatim>\<open>class\<close> for one site.\<close>

theorem pie_missing_columns:
  "(\<not> has_column df col_class \<longrightarrow> get_pie_chart df (Some ''ALL'') = Inl (KeyError col_class)) \<and>
   (entered_site \<noteq> Some ''ALL'' \<longrightarrow> \<not> has_column df col_site \<longrightarrow>
      get_pie_chart df entered_site = Inl (KeyError col_site)) \<and>
   (entered_site \<noteq> Some ''ALL'' \<longrightarrow> has_column df col_site \<longrightarrow> \<not> has_column df col_class \<longrightarrow>
      get_pie_chart df entered_site = Inl (KeyError col_class))"
  by (simp add: get_pie_chart_def)

lemma pie_missing_columns_witness:
  "\<not> has_column placeholder_no_class col_class \<and>
   get_pie_chart placeholder_no_class (Some ''ALL'') = Inl (KeyError col_class) \<and>
   get_pie_chart placeholder_no_class (Some ''X'') = Inl (KeyError col_class)"
  using pie_missing_columns [of placeholder_no_class "Some ''X''"]
  by (simp add: has_column_def placeholder_no_class_def)

end
