(* ===== verification/Scatter.thy ===== *)
theory Scatter
  imports Figure
begin

text \<open>
  The scatter callback \<^verbatim>\<open>get_scatter_chart\<close> (\<^verbatim>\<open>src/spacex_dash_app.py\<close>,
  lines 111--143): unpack the slider's value, the guard on the payload column, the
  payload interval filter (skipped when a bound is not a number), then the optional
  site filter and the \<^verbatim>\<open>px.scatter\<close> call.
\<close>

section \<open>Steps\<close>

text \<open>\<^verbatim>\<open>low, high = payload_range\<close>: a list or a string of exactly two items
  unpacks; a shorter or longer one raises \<^verbatim>\<open>ValueError\<close>; anything else is not
  iterable and raises \<^verbatim>\<open>TypeError\<close>.\<close>

fun unpack_pair :: "pyval \<Rightarrow> (pyval \<times> pyval) result" where
  "unpack_pair (PList [a, b]) = Inr (a, b)"
| "unpack_pair (PList xs) =
     Inl (ValueError (if length xs < 2 then ''not enough values to unpack''
                      else ''too many values to unpack''))"
| "unpack_pair (PStr [a, b]) = Inr (PStr [a], PStr [b])"
| "unpack_pair (PStr s) =
     Inl (ValueError (if length s < 2 then ''not enough values to unpack''
                      else ''too many values to unpack''))"
| "unpack_pair _ = Inl (TypeError ''cannot unpack non-iterable object'')"

text \<open>The mask \<^verbatim>\<open>(df[payload] >= low) & (df[payload] <= high)\<close>: a NaN
  payload compares false.\<close>

definition in_payload_range :: "real \<Rightarrow> real \<Rightarrow> launch \<Rightarrow> bool" where
  "in_payload_range lo hi r =
     (case payload_mass r of None \<Rightarrow> False | Some p \<Rightarrow> lo \<le> p \<and> p \<le> hi)"

text \<open>Lines 120--125: the interval filter, or the whole frame when a bound is not a
  number.\<close>

definition range_filtered :: "frame \<Rightarrow> pyval \<Rightarrow> pyval \<Rightarrow> frame" where
  "range_filtered df low high =
     (case (py_number low, py_number high) of
        (Some lo, Some hi) \<Rightarrow> filter_rows (in_payload_range lo hi) df
      | _ \<Rightarrow> df)"

definition missing_payload_title :: string where
  "missing_payload_title = ''Payload Mass (kg) column missing''"

definition all_sites_scatter_title :: string where
  "all_sites_scatter_title = ''Payload vs. Launch Outcome for All Sites''"

definition site_scatter_title :: "string option \<Rightarrow> string" where
  "site_scatter_title s = ''Payload vs. Launch Outcome for site '' @ py_format s"

definition get_scatter_chart :: "frame \<Rightarrow> string option \<Rightarrow> pyval \<Rightarrow> figure result" where
  "get_scatter_chart df entered_site payload_range =
     (case unpack_pair payload_range of
        Inl e \<Rightarrow> Inl e
      | Inr (low, high) \<Rightarrow>
          (if \<not> has_column df col_payload then Inr (EmptyFigure missing_payload_title)
           else
             (let current = range_filtered df low high in
              if entered_site = Some ''ALL'' then px_scatter current all_sites_scatter_title
              else
                (case column current col_site launch_site of
                   Inl e \<Rightarrow> Inl e
                 | Inr _ \<Rightarrow>
                     px_scatter (filter_rows (\<lambda>r. Some (launch_site r) = entered_site) current)
                       (site_scatter_title entered_site)))))"

text \<open>A table read from a CSV without the payload column.\<close>

definition placeholder_no_payload :: frame where
  "placeholder_no_payload =
     \<lparr>columns = [col_site, col_class, col_booster],
      rows = [\<lparr>payload_mass = None, launch_site = ''X'', outcome_class = 1,
               booster_category = ''Y''\<rparr>]\<rparr>"

section \<open>Lemmas\<close>

declare range_filtered_def [eval_simps] in_payload_range_def [eval_simps] row_point_def [eval_simps]

lemma columns_range_filtered [simp]: "columns (range_filtered df low high) = columns df"
  by (simp add: range_filtered_def split: option.splits)

lemma well_formed_range_filtered [simp]:
  "well_formed (range_filtered df low high) = well_formed df"
  by (simp add: well_formed_def)

lemma well_formed_filter_rows [simp]: "well_formed (filter_rows P df) = well_formed df"
  by (simp add: well_formed_def)

lemma rows_range_filtered_numbers:
  "py_number low = Some lo \<Longrightarrow> py_number high = Some hi \<Longrightarrow>
   rows (range_filtered df low high) = filter (in_payload_range lo hi) (rows df)"
  by (simp add: range_filtered_def)

lemma rows_range_filtered_other:
  "py_number low = None \<or> py_number high = None \<Longrightarrow>
   rows (range_filtered df low high) = rows df"
  by (auto simp: range_filtered_def split: option.splits)

text \<open>What a drawn scatter is: the unpacked bounds, then either the guard's empty
  figure or the points of the rows that pass both masks.\<close>

lemma get_scatter_chart_Inr:
  assumes "get_scatter_chart df site v = Inr f"
  shows "\<exists>low high. unpack_pair v = Inr (low, high) \<and>
    (\<not> has_column df col_payload \<and> f = EmptyFigure missing_payload_title \<or>
     has_column df col_payload \<and>
     f = ScatterFigure
           (map row_point (filter (\<lambda>r. site = Some ''ALL'' \<or> Some (launch_site r) = site)
                             (rows (range_filtered df low high))))
           (if site = Some ''ALL'' then all_sites_scatter_title else site_scatter_title site))"
  using assms
  by (auto simp: get_scatter_chart_def Let_def column_def dest!: px_scatter_Inr
           split: sum.splits if_splits)

text \<open>The callback on a well-formed frame and an unpackable value: its exact output.\<close>

lemma get_scatter_chart_unpacked:
  assumes "well_formed df" and "unpack_pair v = Inr (low, high)"
  shows "get_scatter_chart df site v =
    Inr (ScatterFigure
          (map row_point (filter (\<lambda>r. site = Some ''ALL'' \<or> Some (launch_site r) = site)
                            (rows (range_filtered df low high))))
          (if site = Some ''ALL'' then all_sites_scatter_title else site_scatter_title site))"
proof -
  have pay: "has_column df col_payload" and st: "has_column df col_site"
    using assms(1) by (simp_all add: well_formed_has_column dashboard_columns_def)
  show ?thesis
  proof (cases "site = Some ''ALL''")
    case True
    with assms pay show ?thesis
      by (simp add: get_scatter_chart_def px_scatter_ok)
  next
    case False
    with assms pay st show ?thesis
      by (simp add: get_scatter_chart_def px_scatter_ok has_column_def)
  qed
qed

section \<open>Claims\<close>

text \<open>C6. Whenever the slider's two bounds are numbers, every point a drawn scatter
  plots has a payload (not NaN) within the bounds, inclusive, for any site.\<close>

theorem scatter_points_in_range:
  assumes "unpack_pair v = Inr (low, high)" and "py_number low = Some lo"
    and "py_number high = Some hi" and "get_scatter_chart df site v = Inr f"
  shows "\<forall>pt\<in>set (plotted f). \<exists>p. fst pt = Some p \<and> lo \<le> p \<and> p \<le> hi"
  using get_scatter_chart_Inr [OF assms(4)] assms(1-3)
  by (auto simp: rows_range_filtered_numbers row_point_def in_payload_range_def
           split: option.splits)

lemma scatter_points_in_range_witness:
  "unpack_pair (PList [PInt 0, PInt 1000]) = Inr (PInt 0, PInt 1000) \<and>
   py_number (PInt 0) = Some 0 \<and> py_number (PInt 1000) = Some 1000 \<and>
   get_scatter_chart example_frame (Some ''ALL'') (PList [PInt 0, PInt 1000]) =
     Inr (ScatterFigure [(Some 500, 1, ''B1''), (Some 500, 0, ''B2'')] all_sites_scatter_title) \<and>
   (\<exists>p. fst (Some (500::real), 1::int, ''B2'') = Some p \<and> 0 \<le> p \<and> p \<le> 1000)"
proof -
  have g: "get_scatter_chart example_frame (Some ''ALL'') (PList [PInt 0, PInt 1000]) =
     Inr (ScatterFigure [(Some 500, 1, ''B1''), (Some 500, 0, ''B2'')] all_sites_scatter_title)"
    by (simp add: get_scatter_chart_unpacked well_formed_example)
       (simp add: example_frame_def eval_simps)
  show ?thesis
    using scatter_points_in_range [of "PList [PInt 0, PInt 1000]" "PInt 0" "PInt 1000" 0 1000,
                                   OF _ _ _ g] g
    by simp
qed

text \<open>C7. For the same unpackable slider value on a table with the payload column, the
  all-sites scatter plots the rows that pass the interval filter, and a single-site
  scatter (site \<open>s\<close>, not \<^verbatim>\<open>ALL\<close>) plots exactly those of these rows whose launch
  site is \<open>s\<close>, in the same order.\<close>

theorem scatter_site_subset:
  assumes "unpack_pair v = Inr (low, high)" and "has_column df col_payload"
    and "s \<noteq> ''ALL''"
    and "get_scatter_chart df (Some ''ALL'') v = Inr fa" and "get_scatter_chart df (Some s) v = Inr fs"
  shows "plotted fa = map row_point (rows (range_filtered df low high)) \<and>
    plotted fs = map row_point (filter (\<lambda>r. launch_site r = s) (rows (range_filtered df low high)))"
proof -
  have a: "fa = ScatterFigure (map row_point (rows (range_filtered df low high))) all_sites_scatter_title"
    using get_scatter_chart_Inr [OF assms(4)] assms(1,2) by auto
  have b: "fs = ScatterFigure
      (map row_point (filter (\<lambda>r. Some (launch_site r) = Some s) (rows (range_filtered df low high))))
      (site_scatter_title (Some s))"
    using get_scatter_chart_Inr [OF assms(5)] assms(1-3) by auto
  show ?thesis
    using a b by simp
qed

lemma scatter_site_subset_witness:
  "unpack_pair (PList [PInt 0, PInt 1000]) = Inr (PInt 0, PInt 1000) \<and>
   has_column example_frame col_payload \<and> ''A'' \<noteq> ''ALL'' \<and>
   get_scatter_chart example_frame (Some ''ALL'') (PList [PInt 0, PInt 1000]) =
     Inr (ScatterFigure [(Some 500, 1, ''B1''), (Some 500, 0, ''B2'')] all_sites_scatter_title) \<and>
   get_scatter_chart example_frame (Some ''A'') (PList [PInt 0, PInt 1000]) =
     Inr (ScatterFigure [(Some 500, 1, ''B1''), (Some 500, 0, ''B2'')] (site_scatter_title (Some ''A''))) \<and>
   [(Some (500::real), 1::int, ''B1''), (Some 500, 0, ''B2'')] =
     map row_point (filter (\<lambda>r. launch_site r = ''A'')
                      (rows (range_filtered example_frame (PInt 0) (PInt 1000))))"
proof -
  have u: "unpack_pair (PList [PInt 0, PInt 1000]) = Inr (PInt 0, PInt 1000)" by simp
  have h: "has_column example_frame col_payload"
    by (simp add: has_column_example dashboard_columns_def)
  have n: "''A'' \<noteq> ''ALL''" by simp
  have a: "get_scatter_chart example_frame (Some ''ALL'') (PList [PInt 0, PInt 1000]) =
     Inr (ScatterFigure [(Some 500, 1, ''B1''), (Some 500, 0, ''B2'')] all_sites_scatter_title)"
    by (simp add: get_scatter_chart_unpacked well_formed_example)
       (simp add: example_frame_def eval_simps)
  have b: "get_scatter_chart example_frame (Some ''A'') (PList [PInt 0, PInt 1000]) =
     Inr (ScatterFigure [(Some 500, 1, ''B1''), (Some 500, 0, ''B2'')] (site_scatter_title (Some ''A'')))"
    by (simp add: get_scatter_chart_unpacked well_formed_example)
       (simp add: example_frame_def eval_simps)
  have "[(Some (500::real), 1::int, ''B1''), (Some 500, 0, ''B2'')] =
     map row_point (filter (\<lambda>r. launch_site r = ''A'')
                      (rows (range_filtered example_frame (PInt 0) (PInt 1000))))"
  proof -
    from scatter_site_subset [OF u h n a b]
    have "plotted (ScatterFigure [(Some 500, 1, ''B1''), (Some 500, 0, ''B2'')]
                     (site_scatter_title (Some ''A''))) =
          map row_point (filter (\<lambda>r. launch_site r = ''A'')
                           (rows (range_filtered example_frame (PInt 0) (PInt 1000))))"
      by (rule conjunct2)
    then show ?thesis by (simp only: plotted.simps)
  qed
  with u h n a b show ?thesis by blast
qed

text \<open>C8. On a well-formed frame with numeric bounds, the all-sites scatter plots
  exactly the rows whose payload lies in the interval, in file order.\<close>

theorem scatter_all_exact:
  assumes "well_formed df" and "py_number low = Some lo" and "py_number high = Some hi"
  shows "get_scatter_chart df (Some ''ALL'') (PList [low, high]) =
    Inr (ScatterFigure (map row_point (filter (in_payload_range lo hi) (rows df)))
           all_sites_scatter_title)"
  using get_scatter_chart_unpacked [OF assms(1), of "PList [low, high]" low high "Some ''ALL''"]
    assms(2,3)
  by (simp add: rows_range_filtered_numbers)

lemma scatter_all_exact_witness:
  "well_formed example_frame \<and> py_number (PFloat 400) = Some 400 \<and>
   py_number (PInt 9000) = Some 9000 \<and>
   get_scatter_chart example_frame (Some ''ALL'') (PList [PFloat 400, PInt 9000]) =
     Inr (ScatterFigure [(Some 500, 1, ''B1''), (Some 500, 0, ''B2''), (Some 9000, 1, ''B1'')]
            all_sites_scatter_title)"
  using scatter_all_exact [OF well_formed_example, of "PFloat 400" 400 "PInt 9000" 9000]
  by (simp add: well_formed_def dashboard_columns_def example_frame_def in_payload_range_def
                row_point_def)

text \<open>C9. When a bound is not a number (e.g. \<^verbatim>\<open>None\<close> or a string), the interval
  filter is skipped: a well-formed frame's scatter plots every row of the selected
  site(s), NaN payloads included.\<close>

theorem scatter_non_numeric_bounds:
  assumes "well_formed df" and "unpack_pair v = Inr (low, high)"
    and "py_number low = None \<or> py_number high = None"
  shows "get_scatter_chart df site v =
    Inr (ScatterFigure
          (map row_point (filter (\<lambda>r. site = Some ''ALL'' \<or> Some (launch_site r) = site) (rows df)))
          (if site = Some ''ALL'' then all_sites_scatter_title else site_scatter_title site))"
  using get_scatter_chart_unpacked [OF assms(1,2)] rows_range_filtered_other [OF assms(3)]
  by simp

lemma scatter_non_numeric_bounds_witness:
  "well_formed example_frame \<and> unpack_pair (PList [PNone, PInt 1000]) = Inr (PNone, PInt 1000) \<and>
   (py_number PNone = None \<or> py_number (PInt 1000) = None) \<and>
   get_scatter_chart example_frame (Some ''B'') (PList [PNone, PInt 1000]) =
     Inr (ScatterFigure [(Some 9000, 1, ''B1'')] (site_scatter_title (Some ''B'')))"
  using scatter_non_numeric_bounds [OF well_formed_example, of "PList [PNone, PInt 1000]" PNone
                                    "PInt 1000" "Some ''B''"]
  by (simp add: well_formed_def dashboard_columns_def example_frame_def row_point_def)

text \<open>C10. A slider value that is not a two-item list (or a two-character string)
  makes the callback raise before anything else, even on a frame without the payload
  column: \<^verbatim>\<open>ValueError\<close> for a list or string of another length,
  \<^verbatim>\<open>TypeError\<close> for a value that is not iterable.\<close>

theorem scatter_unpack_errors:
  assumes "\<forall>a b. v \<noteq> PList [a, b]" and "\<forall>c d. v \<noteq> PStr [c, d]"
  shows "\<exists>msg. get_scatter_chart df site v = Inl (ValueError msg) \<and>
      ((\<exists>xs. v = PList xs) \<or> (\<exists>s. v = PStr s)) \<or>
    get_scatter_chart df site v = Inl (TypeError ''cannot unpack non-iterable object'') \<and>
      (\<forall>xs. v \<noteq> PList xs) \<and> (\<forall>s. v \<noteq> PStr s)"
proof (cases v)
  case (PList xs)
  with assms(1) have "\<exists>msg. unpack_pair v = Inl (ValueError msg)"
    by (cases xs rule: remdups_adj.cases) (auto simp: neq_Nil_conv)
  with PList show ?thesis by (auto simp: get_scatter_chart_def)
next
  case (PStr s)
  with assms(2) have "\<exists>msg. unpack_pair v = Inl (ValueError msg)"
    by (cases s rule: remdups_adj.cases) (auto simp: neq_Nil_conv)
  with PStr show ?thesis by (auto simp: get_scatter_chart_def)
qed (simp_all add: get_scatter_chart_def)

lemma scatter_unpack_errors_witness:
  "(\<forall>a b. PNone \<noteq> PList [a, b]) \<and> (\<forall>c d. PNone \<noteq> PStr [c, d]) \<and>
   get_scatter_chart placeholder_no_payload (Some ''ALL'') PNone =
     Inl (TypeError ''cannot unpack non-iterable object'') \<and>
   (\<forall>a b. PList [PInt 1] \<noteq> PList [a, b]) \<and> (\<forall>c d. PList [PInt 1] \<noteq> PStr [c, d]) \<and>
   (\<exists>msg. get_scatter_chart placeholder_no_payload (Some ''ALL'') (PList [PInt 1]) =
      Inl (ValueError msg))"
  using scatter_unpack_errors [of PNone placeholder_no_payload "Some ''ALL''"]
    scatter_unpack_errors [of "PList [PInt 1]" placeholder_no_payload "Some ''ALL''"]
  by auto

text \<open>C11. On a frame without the payload column, any unpackable slider value gives
  the empty figure titled as a missing column, for any site.\<close>

theorem scatter_missing_payload:
  assumes "\<not> has_column df col_payload" and "unpack_pair v = Inr (low, high)"
  shows "get_scatter_chart df site v = Inr (EmptyFigure missing_payload_title)"
  using assms by (simp add: get_scatter_chart_def)

lemma scatter_missing_payload_witness:
  "\<not> has_column placeholder_no_payload col_payload \<and>
   unpack_pair (PList [PInt 0, PInt 1]) = Inr (PInt 0, PInt 1) \<and>
   get_scatter_chart placeholder_no_payload (Some ''X'') (PList [PInt 0, PInt 1]) =
     Inr (EmptyFigure missing_payload_title)"
proof -
  have h: "\<not> has_column placeholder_no_payload col_payload"
    by (simp add: has_column_def placeholder_no_payload_def)
  show ?thesis
    using scatter_missing_payload [OF h, of "PList [PInt 0, PInt 1]" "PInt 0" "PInt 1" "Some ''X''"] h
    by simp
qed

end
