(* ===== verification/Host.thy ===== *)
theory Host
  imports Layout Pie Scatter
begin

text \<open>
  The application as the host runs it. Start-up (\<^verbatim>\<open>src/spacex_dash_app.py\<close>
  lines 12--74) loads the table, takes the payload extrema and builds the page; any
  exception there ends the process (\<open>Inl\<close>). The two \<^verbatim>\<open>@app.callback\<close>
  declarations (lines 77--80 and 106--110) wire the callbacks: the pie reads the dropdown,
  the scatter reads the dropdown and the slider. Dash calls every callback once when the
  page loads, and again whenever one of its inputs changes; a callback that raises leaves
  its graph as it was and the error is reported (\<open>callback_errors\<close>). The state of one
  page session is the record \<open>app\<close>; \<open>host_step\<close> is one user event and
  \<open>reachable\<close> the states a session can be in. The initial slider value reaches the
  callback as a list of two numbers (\<open>PFloat\<close>; an integer would behave the same, as
  \<open>py_number\<close> reads both).
\<close>

section \<open>Session state and events\<close>

record app =
  app_df :: frame
  app_page :: page
  console :: "string list"
  site_value :: "string option"
  range_value :: pyval
  pie_figure :: "figure option"
  scatter_figure :: "figure option"
  callback_errors :: "error list"

datatype event =
    SelectSite "string option"
  | MoveSlider pyval

text \<open>Running one callback and delivering its output (or its error) to the page.\<close>

definition fire_pie :: "app \<Rightarrow> app" where
  "fire_pie a =
     (case get_pie_chart (app_df a) (site_value a) of
        Inl e \<Rightarrow> a\<lparr>callback_errors := callback_errors a @ [e]\<rparr>
      | Inr f \<Rightarrow> a\<lparr>pie_figure := Some f\<rparr>)"

definition fire_scatter :: "app \<Rightarrow> app" where
  "fire_scatter a =
     (case get_scatter_chart (app_df a) (site_value a) (range_value a) of
        Inl e \<Rightarrow> a\<lparr>callback_errors := callback_errors a @ [e]\<rparr>
      | Inr f \<Rightarrow> a\<lparr>scatter_figure := Some f\<rparr>)"

text \<open>The dropdown is an input of both callbacks, the slider of the scatter only.\<close>

fun host_step :: "app \<Rightarrow> event \<Rightarrow> app" where
  "host_step a (SelectSite v) = fire_scatter (fire_pie (a\<lparr>site_value := v\<rparr>))"
| "host_step a (MoveSlider v) = fire_scatter (a\<lparr>range_value := v\<rparr>)"

fun host_run :: "app \<Rightarrow> event list \<Rightarrow> app" where
  "host_run a [] = a"
| "host_run a (e # es) = host_run (host_step a e) es"

text \<open>Start-up, then the initial call of both callbacks with the layout's values.\<close>

definition startup :: "csv_read \<Rightarrow> app result" where
  "startup r =
     (case load_dataset r of
        Inl e \<Rightarrow> Inl e
      | Inr (df, out) \<Rightarrow>
          (case payload_extrema df of
             Inl e \<Rightarrow> Inl e
           | Inr (max_payload, min_payload) \<Rightarrow>
               (case build_layout df max_payload min_payload of
                  Inl e \<Rightarrow> Inl e
                | Inr pg \<Rightarrow>
                    Inr (fire_scatter (fire_pie
                      \<lparr>app_df = df, app_page = pg, console = out,
                       site_value = Some (dropdown_value (site_dropdown pg)),
                       range_value = PList (map PFloat (slider_value (payload_slider pg))),
                       pie_figure = None, scatter_figure = None, callback_errors = []\<rparr>)))))"

inductive reachable :: "app \<Rightarrow> bool" where
  init: "startup r = Inr a \<Longrightarrow> reachable a"
| step: "reachable a \<Longrightarrow> reachable (host_step a e)"

text \<open>A slider event as the range slider sends it: a list of two numbers.\<close>

fun slider_event_ok :: "event \<Rightarrow> bool" where
  "slider_event_ok (MoveSlider v) = (\<exists>x y. v = PList [x, y])"
| "slider_event_ok (SelectSite v) = True"

text \<open>The graphs show the callbacks' results for the current inputs, wherever those
  results exist.\<close>

definition figures_current :: "app \<Rightarrow> bool" where
  "figures_current a \<longleftrightarrow>
     (\<forall>f. get_pie_chart (app_df a) (site_value a) = Inr f \<longrightarrow> pie_figure a = Some f) \<and>
     (\<forall>f. get_scatter_chart (app_df a) (site_value a) (range_value a) = Inr f \<longrightarrow>
          scatter_figure a = Some f)"

text \<open>The error-free run: the frame keeps all columns and the slider value stays a
  pair, so neither callback raises.\<close>

definition quiet :: "app \<Rightarrow> bool" where
  "quiet a \<longleftrightarrow> well_formed (app_df a) \<and> callback_errors a = [] \<and>
     (\<exists>x y. range_value a = PList [x, y])"

section \<open>Lemmas\<close>

lemma fire_pie_df [simp]: "app_df (fire_pie a) = app_df a"
  and fire_pie_site [simp]: "site_value (fire_pie a) = site_value a"
  and fire_pie_range [simp]: "range_value (fire_pie a) = range_value a"
  and fire_pie_scatter [simp]: "scatter_figure (fire_pie a) = scatter_figure a"
  and fire_pie_console [simp]: "console (fire_pie a) = console a"
  by (simp_all add: fire_pie_def split: sum.splits)

lemma fire_scatter_df [simp]: "app_df (fire_scatter a) = app_df a"
  and fire_scatter_site [simp]: "site_value (fire_scatter a) = site_value a"
  and fire_scatter_range [simp]: "range_value (fire_scatter a) = range_value a"
  and fire_scatter_pie [simp]: "pie_figure (fire_scatter a) = pie_figure a"
  and fire_scatter_console [simp]: "console (fire_scatter a) = console a"
  by (simp_all add: fire_scatter_def split: sum.splits)

lemma fire_pie_figure:
  "get_pie_chart (app_df a) (site_value a) = Inr f \<Longrightarrow> pie_figure (fire_pie a) = Some f"
  by (simp add: fire_pie_def)

lemma fire_scatter_figure:
  "get_scatter_chart (app_df a) (site_value a) (range_value a) = Inr f \<Longrightarrow>
   scatter_figure (fire_scatter a) = Some f"
  by (simp add: fire_scatter_def)

lemma fire_pie_errors:
  "callback_errors (fire_pie a) =
     callback_errors a @ (case get_pie_chart (app_df a) (site_value a) of Inl e \<Rightarrow> [e] | Inr _ \<Rightarrow> [])"
  by (simp add: fire_pie_def split: sum.splits)

lemma fire_scatter_errors:
  "callback_errors (fire_scatter a) =
     callback_errors a @
       (case get_scatter_chart (app_df a) (site_value a) (range_value a) of
          Inl e \<Rightarrow> [e] | Inr _ \<Rightarrow> [])"
  by (simp add: fire_scatter_def split: sum.splits)

lemma host_step_df [simp]: "app_df (host_step a e) = app_df a"
  by (cases e) simp_all

lemma host_run_df [simp]: "app_df (host_run a es) = app_df a"
  by (induction es arbitrary: a) simp_all

lemma startup_Inr:
  assumes "startup r = Inr a"
  shows "\<exists>out mx mn pg. load_dataset r = Inr (app_df a, out) \<and>
    payload_extrema (app_df a) = Inr (mx, mn) \<and> build_layout (app_df a) mx mn = Inr pg \<and>
    a = fire_scatter (fire_pie
          \<lparr>app_df = app_df a, app_page = pg, console = out, site_value = Some ''ALL'',
           range_value = PList (map PFloat (initial_range mx mn)),
           pie_figure = None, scatter_figure = None, callback_errors = []\<rparr>)"
proof -
  from assms obtain df out mx mn pg where l: "load_dataset r = Inr (df, out)"
    and e: "payload_extrema df = Inr (mx, mn)" and b: "build_layout df mx mn = Inr pg"
    and a: "a = fire_scatter (fire_pie
          \<lparr>app_df = df, app_page = pg, console = out,
           site_value = Some (dropdown_value (site_dropdown pg)),
           range_value = PList (map PFloat (slider_value (payload_slider pg))),
           pie_figure = None, scatter_figure = None, callback_errors = []\<rparr>)"
    by (auto simp: startup_def split: sum.splits)
  from build_layout_Inr [OF b] have "dropdown_value (site_dropdown pg) = ''ALL''"
    and "slider_value (payload_slider pg) = initial_range mx mn" by simp_all
  with l e b a show ?thesis by auto
qed

lemma startup_columns:
  "startup r = Inr a \<Longrightarrow> has_column (app_df a) col_payload \<and> has_column (app_df a) col_site"
  by (auto dest!: startup_Inr simp: payload_extrema_Inr build_layout_Inr)

lemma reachable_columns:
  "reachable a \<Longrightarrow> has_column (app_df a) col_payload \<and> has_column (app_df a) col_site"
  by (induction rule: reachable.induct) (simp_all add: startup_columns)

lemma get_pie_chart_well_formed: "well_formed df \<Longrightarrow> \<exists>f. get_pie_chart df s = Inr f"
  by (simp add: get_pie_chart_def Let_def px_pie_names_def well_formed_has_column
                dashboard_columns_def split: sum.splits)

lemma get_scatter_chart_well_formed:
  "well_formed df \<Longrightarrow> v = PList [x, y] \<Longrightarrow> \<exists>f. get_scatter_chart df s v = Inr f"
  using get_scatter_chart_unpacked [of df v x y s] by simp

lemma figures_current_fire_both: "figures_current (fire_scatter (fire_pie a))"
  by (auto simp: figures_current_def fire_scatter_figure fire_pie_figure)

lemma figures_current_slider:
  "figures_current a \<Longrightarrow> figures_current (fire_scatter (a\<lparr>range_value := v\<rparr>))"
  by (auto simp: figures_current_def fire_scatter_figure)

lemma figures_current_step: "figures_current a \<Longrightarrow> figures_current (host_step a e)"
  by (cases e) (simp_all add: figures_current_fire_both figures_current_slider)

lemma figures_current_startup: "startup r = Inr a \<Longrightarrow> figures_current a"
proof -
  assume "startup r = Inr a"
  then obtain out mx mn pg where eq: "a = fire_scatter (fire_pie
          \<lparr>app_df = app_df a, app_page = pg, console = out, site_value = Some ''ALL'',
           range_value = PList (map PFloat (initial_range mx mn)),
           pie_figure = None, scatter_figure = None, callback_errors = []\<rparr>)"
    using startup_Inr by blast
  show "figures_current a"
    by (subst eq) (rule figures_current_fire_both)
qed

lemma quiet_fire_pie: "quiet a \<Longrightarrow> quiet (fire_pie a)"
  using get_pie_chart_well_formed [of "app_df a" "site_value a"]
  by (auto simp: quiet_def fire_pie_errors)

lemma quiet_fire_scatter: "quiet a \<Longrightarrow> quiet (fire_scatter a)"
  using get_scatter_chart_well_formed [of "app_df a" "range_value a" _ _ "site_value a"]
  by (auto simp: quiet_def fire_scatter_errors)

lemma quiet_step: "quiet a \<Longrightarrow> slider_event_ok e \<Longrightarrow> quiet (host_step a e)"
proof (cases e)
  case (SelectSite v)
  assume "quiet a"
  then have "quiet (a\<lparr>site_value := v\<rparr>)" by (simp add: quiet_def)
  with SelectSite show ?thesis by (simp add: quiet_fire_pie quiet_fire_scatter)
next
  case (MoveSlider v)
  assume "quiet a" and "slider_event_ok e"
  with MoveSlider have "quiet (a\<lparr>range_value := v\<rparr>)" by (simp add: quiet_def)
  with MoveSlider show ?thesis by (simp add: quiet_fire_scatter)
qed

lemma quiet_run: "quiet a \<Longrightarrow> list_all slider_event_ok es \<Longrightarrow> quiet (host_run a es)"
  by (induction es arbitrary: a) (simp_all add: quiet_step)

lemma quiet_startup: "startup r = Inr a \<Longrightarrow> well_formed (app_df a) \<Longrightarrow> quiet a"
proof -
  assume s: "startup r = Inr a" and w: "well_formed (app_df a)"
  then obtain out mx mn pg where a: "a = fire_scatter (fire_pie
          \<lparr>app_df = app_df a, app_page = pg, console = out, site_value = Some ''ALL'',
           range_value = PList (map PFloat (initial_range mx mn)),
           pie_figure = None, scatter_figure = None, callback_errors = []\<rparr>)"
    using startup_Inr by blast
  have "quiet \<lparr>app_df = app_df a, app_page = pg, console = out, site_value = Some ''ALL'',
           range_value = PList (map PFloat (initial_range mx mn)),
           pie_figure = None, scatter_figure = None, callback_errors = []\<rparr>"
    using w by (simp add: quiet_def initial_range_def)
  then show "quiet a"
    by (subst a) (simp add: quiet_fire_pie quiet_fire_scatter)
qed

lemma startup_not_found_Inr: "\<exists>a. startup CsvNotFound = Inr a"
  by (simp add: startup_def load_dataset_def payload_extrema_def build_layout_def
                site_options_def placeholder_frame_def has_column_def column_def)

lemma startup_not_found:
  assumes "startup CsvNotFound = Inr a"
  shows "app_df a = placeholder_frame \<and> console a = [not_found_message] \<and>
    range_value a = PList [PFloat 0, PFloat 0]"
proof -
  obtain out mx mn pg where e: "payload_extrema (app_df a) = Inr (mx, mn)"
    and l: "load_dataset CsvNotFound = Inr (app_df a, out)"
    and eq: "a = fire_scatter (fire_pie
          \<lparr>app_df = app_df a, app_page = pg, console = out, site_value = Some ''ALL'',
           range_value = PList (map PFloat (initial_range mx mn)),
           pie_figure = None, scatter_figure = None, callback_errors = []\<rparr>)"
    using startup_Inr [OF assms] by blast
  from l have df: "app_df a = placeholder_frame" and out: "out = [not_found_message]"
    by (simp_all add: load_dataset_def)
  with e have "mx = Some 0" and "mn = Some 0"
    by (simp_all add: payload_extrema_Inr placeholder_frame_def)
  then have "range_value a = PList [PFloat 0, PFloat 0]"
    by (subst eq) (simp add: initial_range_def)
  moreover have "console a = out"
    by (subst eq) simp
  ultimately show ?thesis using df out by simp
qed

lemma initial_range_filter:
  assumes "payload_extrema df = Inr (mx, mn)" and "initial_range mx mn = [lo, hi]"
  shows "filter (in_payload_range lo hi) (rows df) = filter (\<lambda>r. payload_mass r \<noteq> None) (rows df)"
proof (rule filter_cong [OF refl])
  fix r assume r: "r \<in> set (rows df)"
  from initial_range_extrema [OF assms(1)] assms(2) r
  show "in_payload_range lo hi r = (payload_mass r \<noteq> None)"
    by (auto simp: in_payload_range_def split: option.splits)
qed

lemma get_pie_chart_cleared:
  "has_column df col_site \<Longrightarrow> has_column df col_class \<Longrightarrow>
   get_pie_chart df None = Inr (PieFigure [] (Some []) (site_pie_title None))"
  by (simp add: get_pie_chart_def value_counts_def List.map_filter_def)

section \<open>Claims\<close>

text \<open>C17. Start-up succeeds exactly when the CSV is missing (the fallback table is
  used) or parses into a table with both the payload and the site column; any other read
  failure, and a table without one of these columns, stops the process.\<close>

theorem startup_succeeds_iff:
  "(\<exists>a. startup r = Inr a) \<longleftrightarrow>
   r = CsvNotFound \<or> (\<exists>df. r = CsvParsed df \<and> has_column df col_payload \<and> has_column df col_site)"
proof
  assume "\<exists>a. startup r = Inr a"
  then obtain a where s: "startup r = Inr a" by blast
  from startup_Inr [OF s] obtain out where "load_dataset r = Inr (app_df a, out)" by blast
  then have "r = CsvParsed (app_df a) \<or> r = CsvNotFound"
    by (auto dest: load_dataset_frame)
  with startup_columns [OF s] show "r = CsvNotFound \<or>
      (\<exists>df. r = CsvParsed df \<and> has_column df col_payload \<and> has_column df col_site)"
    by blast
next
  assume "r = CsvNotFound \<or>
      (\<exists>df. r = CsvParsed df \<and> has_column df col_payload \<and> has_column df col_site)"
  then show "\<exists>a. startup r = Inr a"
    by (auto simp: startup_not_found_Inr startup_def load_dataset_def payload_extrema_def
                   build_layout_def site_options_def column_def)
       (simp_all add: has_column_def placeholder_frame_def)
qed

text \<open>C18. A missing CSV does not stop the process: the session starts on the
  one-row fallback table with the four dashboard columns (one launch of payload 0 at site
  \<^verbatim>\<open>Default\<close>, not the empty table the comment at line 16 announces), the
  message is printed once, both initial callbacks succeed, and the slider starts at
  \<open>[0, 0]\<close> (the extrema of that one row) rather than the \<open>[0, 10000]\<close> an empty
  table would give.\<close>

theorem startup_file_missing:
  "\<exists>a. startup CsvNotFound = Inr a \<and> app_df a = placeholder_frame \<and>
     console a = [not_found_message] \<and> columns (app_df a) = dashboard_columns \<and>
     length (rows (app_df a)) = 1 \<and> callback_errors a = [] \<and>
     range_value a = PList [PFloat 0, PFloat 0]"
proof -
  obtain a where s: "startup CsvNotFound = Inr a"
    using startup_not_found_Inr by blast
  note st = startup_not_found [OF s]
  have "quiet a"
    using quiet_startup [OF s] st well_formed_placeholder by simp
  with s st show ?thesis
    by (simp add: quiet_def placeholder_frame_def dashboard_columns_def)
qed

text \<open>C19. In every state a running session can reach, the scatter callback never
  takes its missing-column branch (line 115): start-up has already read the payload
  column, and the table never changes.\<close>

theorem missing_payload_branch_unreachable:
  assumes "reachable a"
  shows "get_scatter_chart (app_df a) s v \<noteq> Inr (EmptyFigure missing_payload_title)"
proof
  assume "get_scatter_chart (app_df a) s v = Inr (EmptyFigure missing_payload_title)"
  from get_scatter_chart_Inr [OF this] reachable_columns [OF assms] show False
    by auto
qed

lemma missing_payload_branch_unreachable_witness:
  "reachable (projr (startup CsvNotFound)) \<and>
   get_scatter_chart (app_df (projr (startup CsvNotFound))) (Some ''ALL'') (PList [PInt 0, PInt 1])
     \<noteq> Inr (EmptyFigure missing_payload_title)"
proof -
  obtain a where s: "startup CsvNotFound = Inr a"
    using startup_not_found_Inr by blast
  have r: "reachable (projr (startup CsvNotFound))"
    using reachable.init [OF s] s by simp
  show ?thesis
    using missing_payload_branch_unreachable [OF r] r by simp
qed

text \<open>C20. In every reachable state, each graph shows what its callback returns for
  the current table and input values, whenever that call succeeds.\<close>

theorem reachable_figures_current:
  assumes "reachable a"
  shows "figures_current a"
  using assms
proof (induction rule: reachable.induct)
  case (init r a)
  then show ?case by (rule figures_current_startup)
next
  case (step a e)
  from step.IH show ?case by (rule figures_current_step)
qed

lemma reachable_figures_current_witness:
  "reachable (projr (startup CsvNotFound)) \<and> figures_current (projr (startup CsvNotFound))"
proof -
  obtain a where s: "startup CsvNotFound = Inr a"
    using startup_not_found_Inr by blast
  have r: "reachable (projr (startup CsvNotFound))"
    using reachable.init [OF s] s by simp
  show ?thesis
    using reachable_figures_current [OF r] r by simp
qed

text \<open>C21. On a table with all four columns, as long as the slider sends pairs, no
  callback of a session ever raises.\<close>

theorem session_no_callback_errors:
  assumes "startup r = Inr a" and "well_formed (app_df a)" and "list_all slider_event_ok es"
  shows "callback_errors (host_run a es) = []"
  using quiet_run [OF quiet_startup [OF assms(1,2)] assms(3)] by (simp add: quiet_def)

lemma session_no_callback_errors_witness:
  "startup CsvNotFound = Inr (projr (startup CsvNotFound)) \<and>
   well_formed (app_df (projr (startup CsvNotFound))) \<and>
   list_all slider_event_ok [SelectSite (Some ''Default''), MoveSlider (PList [PInt 0, PInt 500])] \<and>
   callback_errors (host_run (projr (startup CsvNotFound))
     [SelectSite (Some ''Default''), MoveSlider (PList [PInt 0, PInt 500])]) = []"
proof -
  obtain a where s: "startup CsvNotFound = Inr a"
    using startup_not_found_Inr by blast
  from startup_Inr [OF s] have "load_dataset CsvNotFound = Inr (app_df a, [not_found_message])"
    by (auto simp: load_dataset_def)
  then have w: "well_formed (app_df a)"
    by (simp add: load_dataset_def well_formed_placeholder)
  have e: "list_all slider_event_ok [SelectSite (Some ''Default''), MoveSlider (PList [PInt 0, PInt 500])]"
    by simp
  show ?thesis
    using session_no_callback_errors [OF s w e] s w e by simp
qed

text \<open>C22. Right after start-up on a four-column table, the scatter shows every launch
  whose payload is not NaN, over all sites: the initial slider interval covers all
  payloads.\<close>

theorem initial_scatter_shows_all:
  assumes "startup r = Inr a" and "well_formed (app_df a)"
  shows "scatter_figure a =
    Some (ScatterFigure (map row_point (filter (\<lambda>r. payload_mass r \<noteq> None) (rows (app_df a))))
            all_sites_scatter_title)"
proof -
  obtain out mx mn pg where e: "payload_extrema (app_df a) = Inr (mx, mn)"
    and eq: "a = fire_scatter (fire_pie
          \<lparr>app_df = app_df a, app_page = pg, console = out, site_value = Some ''ALL'',
           range_value = PList (map PFloat (initial_range mx mn)),
           pie_figure = None, scatter_figure = None, callback_errors = []\<rparr>)"
    using startup_Inr [OF assms(1)] by blast
  obtain lo hi where i: "initial_range mx mn = [lo, hi]"
    by (simp add: initial_range_def)
  have "get_scatter_chart (app_df a) (Some ''ALL'') (PList [PFloat lo, PFloat hi]) =
        Inr (ScatterFigure (map row_point (filter (\<lambda>r. payload_mass r \<noteq> None) (rows (app_df a))))
               all_sites_scatter_title)"
    using get_scatter_chart_unpacked [OF assms(2), of "PList [PFloat lo, PFloat hi]" "PFloat lo"
            "PFloat hi" "Some ''ALL''"]
    by (simp add: rows_range_filtered_numbers initial_range_filter [OF e i])
  then show ?thesis
    using i by (subst eq) (simp add: fire_scatter_figure)
qed

lemma initial_scatter_shows_all_witness:
  "startup CsvNotFound = Inr (projr (startup CsvNotFound)) \<and>
   well_formed (app_df (projr (startup CsvNotFound))) \<and>
   scatter_figure (projr (startup CsvNotFound)) =
     Some (ScatterFigure [(Some 0, 0, ''Default'')] all_sites_scatter_title)"
proof -
  obtain a where s: "startup CsvNotFound = Inr a"
    using startup_not_found_Inr by blast
  from startup_Inr [OF s] have "load_dataset CsvNotFound = Inr (app_df a, [not_found_message])"
    by (auto simp: load_dataset_def)
  then have df: "app_df a = placeholder_frame"
    by (simp add: load_dataset_def)
  then have w: "well_formed (app_df a)"
    by (simp add: well_formed_placeholder)
  show ?thesis
    using initial_scatter_shows_all [OF s w] s w df
    by (simp add: placeholder_frame_def row_point_def)
qed

text \<open>C23. Clearing the dropdown (its value becomes \<^verbatim>\<open>None\<close>) on a four-column
  table gives an empty pie titled with the site \<^verbatim>\<open>None\<close> and an empty scatter, not
  an error and not the all-sites view.\<close>

theorem cleared_dropdown:
  assumes "well_formed (app_df a)" and "range_value a = PList [x, y]"
  shows "pie_figure (host_step a (SelectSite None)) =
      Some (PieFigure [] (Some []) ''Successful vs. Failed Launches for site None'') \<and>
    scatter_figure (host_step a (SelectSite None)) =
      Some (ScatterFigure [] ''Payload vs. Launch Outcome for site None'')"
proof -
  have p: "get_pie_chart (app_df a) None = Inr (PieFigure [] (Some []) (site_pie_title None))"
    using assms(1) by (simp add: get_pie_chart_cleared well_formed_has_column dashboard_columns_def)
  have sc: "get_scatter_chart (app_df a) None (PList [x, y]) =
      Inr (ScatterFigure [] (site_scatter_title None))"
    using get_scatter_chart_unpacked [OF assms(1), of "PList [x, y]" x y None] by simp
  show ?thesis
    using p sc assms(2)
    by (simp add: fire_pie_figure fire_scatter_figure site_pie_title_def site_scatter_title_def)
qed

lemma cleared_dropdown_witness:
  "well_formed (app_df (projr (startup CsvNotFound))) \<and>
   range_value (projr (startup CsvNotFound)) = PList [PFloat 0, PFloat 0] \<and>
   scatter_figure (host_step (projr (startup CsvNotFound)) (SelectSite None)) =
     Some (ScatterFigure [] ''Payload vs. Launch Outcome for site None'')"
proof -
  have s: "startup CsvNotFound = Inr (projr (startup CsvNotFound))"
    using startup_not_found_Inr by auto
  note st = startup_not_found [OF s]
  have w: "well_formed (app_df (projr (startup CsvNotFound)))"
    using st by (simp add: well_formed_placeholder)
  have r: "range_value (projr (startup CsvNotFound)) = PList [PFloat 0, PFloat 0]"
    using st by simp
  show ?thesis
    using cleared_dropdown [OF w r] w r by simp
qed

end
