(* ===== verification/Spec2Isabelle.thy ===== *)
theory Spec2Isabelle
  imports Host
begin

text \<open>
  \<^bold>\<open>SpaceX launch records dashboard: a verification development.\<close>

  \<^bold>\<open>The program.\<close> \<^verbatim>\<open>src/spacex_dash_app.py\<close> is a Dash web application. At
  start-up it reads a CSV of launch records into a pandas frame (lines 12--22; a one-row
  fallback table when the file is missing), takes the payload extrema (24--25) and builds
  a static page (31--74): a site dropdown, a pie graph, a payload range slider and a
  scatter graph. The host (Dash) then calls two callbacks whenever a declared input
  changes: \<^verbatim>\<open>get_pie_chart\<close> (77--103) on the dropdown, \<^verbatim>\<open>get_scatter_chart\<close>
  (106--143) on the dropdown and the slider. Each returns a chart description that the
  host hands to the renderer. The components never call each other: they share the
  immutable frame and communicate only through the host's input values.

  \<^bold>\<open>Theories, in import order, and the code they model.\<close>
  \<^item> \<open>Prelude\<close>: Python values as the host delivers them (\<open>pyval\<close>; JSON has no
    NaN, so a float is a real; \<open>bool\<close> is an \<open>int\<close>), the exceptions (\<open>error\<close>), the
    result type \<open>error + 'a\<close>, the \<^verbatim>\<open>isinstance\<close> number check (\<open>py_number\<close>),
    f-string printing of the dropdown value (\<open>py_format\<close>), and shared list facts:
    first-seen de-duplication \<open>dedup\<close> (the reference order of pandas'
    \<^verbatim>\<open>unique\<close> and of plotly's label grouping) and per-label sums \<open>group_sum\<close>.
  \<^item> \<open>Frame\<close>: a row is the record \<open>launch\<close> (payload \<open>real option\<close>, None for
    NaN; site; class; booster category), the table is the record \<open>frame\<close> (column names
    and rows in file order). The pandas operations: \<open>column\<close> (\<^verbatim>\<open>df[c]\<close>, with
    \<^verbatim>\<open>KeyError\<close>), \<open>has_column\<close>, \<open>filter_rows\<close> (boolean mask),
    \<open>series_max\<close>/\<open>series_min\<close> (NaN skipped), \<open>unique\<close> (one-pass scan
    \<open>unique_scan\<close>).
  \<^item> \<open>Figure\<close>: the chart descriptions (\<open>figure\<close>) built by the two
    \<^verbatim>\<open>px\<close> calls (\<open>px_pie_names\<close>, \<open>px_scatter\<close>, with plotly's column
    checks); \<open>pie_slices\<close>, the renderer's reading of a pie (equal labels form one
    slice), is the contract the pie claims are stated against; \<open>plotted\<close> the points
    of a scatter.
  \<^item> \<open>Loader\<close>: \<open>load_dataset\<close> (the \<^verbatim>\<open>try\<close>/\<^verbatim>\<open>except\<close> around
    \<^verbatim>\<open>read_csv\<close>, whose outcome \<open>csv_read\<close> is an input), \<open>placeholder_frame\<close>
    (the fallback table exactly as the code builds it: one row of payload 0 at site
    \<^verbatim>\<open>Default\<close>, though the comment above it calls it empty),
    \<open>payload_extrema\<close>.
  \<^item> \<open>Layout\<close>: records \<open>dropdown\<close>, \<open>range_slider\<close>, \<open>page\<close>;
    \<open>site_options\<close>, \<open>slider_marks\<close> (with \<open>py_range\<close> and \<open>py_str_int\<close> for
    Python's \<^verbatim>\<open>range\<close> and \<^verbatim>\<open>str\<close>), \<open>initial_range\<close>, \<open>build_layout\<close>.
  \<^item> \<open>Pie\<close>: \<open>get_pie_chart\<close> with \<open>status_label\<close> (\<^verbatim>\<open>.map\<close>, other classes
    become NaN) and \<open>value_counts\<close> (NaN dropped, stable sort by decreasing count).
  \<^item> \<open>Scatter\<close>: \<open>get_scatter_chart\<close> with \<open>unpack_pair\<close>
    (\<^verbatim>\<open>low, high = payload_range\<close>: \<^verbatim>\<open>ValueError\<close>/\<^verbatim>\<open>TypeError\<close>),
    the payload-column guard, \<open>range_filtered\<close> and \<open>in_payload_range\<close>.
  \<^item> \<open>Host\<close>: one page session as the record \<open>app\<close>; \<open>startup\<close> (load,
    extrema, layout, then the initial call of both callbacks); the two callback
    declarations as \<open>fire_pie\<close>/\<open>fire_scatter\<close> and the step function
    \<open>host_step\<close> over \<open>event\<close>s (a dropdown change fires both callbacks, a slider
    change the scatter only; a callback that raises leaves its graph unchanged and the
    error is recorded); \<open>host_run\<close> over event lists; \<open>reachable\<close> states.
  \<^item> this theory: the root, importing every component; the cross-component
    properties are those of \<open>Host\<close>, which composes all the others.

  \<^bold>\<open>What is proved\<close> (claims C1--C23, each after a text naming it).
  Pie (C1--C5, theory \<open>Pie\<close>): the all-sites slices are the sites with a success,
  sized by their success counts, and add up to the number of successes; a per-site pie
  has only Success/Failure slices with the site's counts, zero counts absent, adding up
  to the site's launches when outcomes are binary; missing columns raise the
  \<^verbatim>\<open>KeyError\<close> of the first column read. Slices are stated through
  \<open>pie_slices\<close>, which lists them in first-seen label order; plotly draws them largest
  first (its default \<^verbatim>\<open>sort=True\<close>), which changes only the drawing order, not
  which slices exist or their sizes.
  Scatter (C6--C11, theory \<open>Scatter\<close>): with numeric bounds every plotted point has a
  payload within them; for the same slider value the all-sites scatter plots exactly the
  interval-filtered rows and a single-site scatter exactly those of them at that site, in
  order; the exact all-sites output; non-numeric bounds skip the filter; unpacking errors
  come first; the missing-column branch.
  Layout (C12--C16, theory \<open>Layout\<close>): the dropdown options; their distinctness
  exactly when no site is named \<^verbatim>\<open>ALL\<close>; the initial slider value is ordered and
  covers every payload, and lies in the fixed 0--10000 domain exactly when all payloads
  do; the page fails to build exactly without the site column.
  Host (C17--C23, theory \<open>Host\<close>): when start-up succeeds; the missing-file start on
  the one-row fallback table, whose slider starts at \<open>[0, 0]\<close> (a finding: the
  comment at line 16 calls that table empty, and an empty one would give
  \<open>[0, 10000]\<close>); the scatter's missing-column branch is unreachable in a running
  session (a finding); the graphs always show the callbacks' results for the current
  inputs (invariant by rule induction over \<open>reachable\<close>); no callback error on a
  four-column table with pair slider events; the initial scatter shows every launch with
  a payload; a cleared dropdown gives empty charts titled \<^verbatim>\<open>None\<close>.
  The supporting lemmas of \<open>Prelude\<close> and \<open>Frame\<close> (first-seen de-duplication and
  its agreement with the one-pass \<^verbatim>\<open>unique\<close> scan, per-label sums, filter and
  extrema facts) are used by these claims and are not claims themselves.

  \<^bold>\<open>Bounds and termination.\<close> There are no machine integers (Python's are unbounded:
  \<open>int\<close>; payloads are reals). Every recursion is structural or has a measure
  (\<open>py_range\<close>: the distance to the stop value), so no fuel is needed; all
  definitions are executable and the witnesses evaluate them by \<open>simp\<close>.

  \<^bold>\<open>Not modelled.\<close> Styles and other presentational attributes of the page; the
  HTTP server and \<^verbatim>\<open>app.run\<close> (lines 146--147); plotly's drawing beyond the slice
  reading of a pie; the parsing inside \<^verbatim>\<open>pd.read_csv\<close> (its outcome is an input);
  several browser sessions at once (each is an independent \<open>app\<close> over the same
  immutable frame).

  \<^bold>\<open>Plan for further work.\<close> Values of other JSON shapes for the dropdown (lists
  from a multi-select), a column-typed frame in which a non-numeric payload cell makes
  the comparisons raise, and the ordering of \<^verbatim>\<open>value_counts\<close> ties.
\<close>

end
